theory Spec2Isabelle
  imports Main
begin

section \<open>Python values\<close>

text \<open>
  The adapter (\<^verbatim>\<open>pydal/adapters/mongo.py\<close>) is Python 2 code: it uses \<^verbatim>\<open>long\<close>,
  \<^verbatim>\<open>basestring\<close> and the \<^verbatim>\<open>L\<close> suffix of long literals. The model follows
  CPython 2.7: a \<^verbatim>\<open>str\<close> is a string of bytes, which is what \<^typ>\<open>string\<close> is;
  \<^verbatim>\<open>int\<close> and \<^verbatim>\<open>long\<close> are both \<^typ>\<open>int\<close>. Lists and tuples are both
  \<open>VList\<close>. A raised exception is the \<open>Inl\<close> of a sum.
\<close>

datatype error =
    ValueError string
  | TypeError string
  | RuntimeError string
  | SyntaxError string
  | NotImplementedError string
  | AttributeError string
  | KeyError string
  | IndexError string
  | InvalidId string
  | WriteError string

datatype val =
    VNone
  | VBool bool
  | VInt int
  | VStr string
  | VByteArray string
  | VBinary string nat
  | VObjectId string
  | VDate int int int
  | VTime int int int
  | VDateTime int int int int int int
  | VList "val list"
  | VDict "(val \<times> val) list"

text \<open>
  \<open>VBinary data subtype\<close> is a \<^verbatim>\<open>bson.Binary\<close> (and its subclass \<^verbatim>\<open>MongoBlob\<close>),
  \<open>VObjectId h\<close> a \<^verbatim>\<open>bson.ObjectId\<close> whose \<^verbatim>\<open>str()\<close> is \<open>h\<close>.
\<close>

text \<open>Python's truth value of an object (\<^verbatim>\<open>if not arg\<close>).\<close>

fun truthy :: "val \<Rightarrow> bool" where
  "truthy VNone = False"
| "truthy (VBool b) = b"
| "truthy (VInt n) = (n \<noteq> 0)"
| "truthy (VStr s) = (s \<noteq> [])"
| "truthy (VByteArray s) = (s \<noteq> [])"
| "truthy (VBinary s t) = (s \<noteq> [])"
| "truthy (VList xs) = (xs \<noteq> [])"
| "truthy (VDict kvs) = (kvs \<noteq> [])"
| "truthy v = True"

text \<open>\<^verbatim>\<open>isinstance(v, basestring)\<close>: in Python 2 \<^verbatim>\<open>Binary\<close> is a subclass of \<^verbatim>\<open>str\<close>.\<close>

fun as_basestring :: "val \<Rightarrow> string option" where
  "as_basestring (VStr s) = Some s"
| "as_basestring (VBinary s t) = Some s"
| "as_basestring v = None"

text \<open>\<^verbatim>\<open>isinstance(v, (int, long))\<close>: \<^verbatim>\<open>bool\<close> is a subclass of \<^verbatim>\<open>int\<close>.\<close>

fun as_integer :: "val \<Rightarrow> int option" where
  "as_integer (VInt n) = Some n"
| "as_integer (VBool b) = Some (if b then 1 else 0)"
| "as_integer v = None"

section \<open>String built-ins\<close>

definition is_digit :: "char \<Rightarrow> bool" where
  "is_digit c = (48 \<le> (of_char c :: nat) \<and> (of_char c :: nat) \<le> 57)"

definition is_alpha :: "char \<Rightarrow> bool" where
  "is_alpha c = ((65 \<le> (of_char c :: nat) \<and> (of_char c :: nat) \<le> 90) \<or>
                 (97 \<le> (of_char c :: nat) \<and> (of_char c :: nat) \<le> 122))"

definition is_alnum :: "char \<Rightarrow> bool" where
  "is_alnum c = (is_digit c \<or> is_alpha c)"

text \<open>The value of a hexadecimal digit, either case.\<close>

definition hex_value :: "char \<Rightarrow> nat option" where
  "hex_value c =
     (let n = (of_char c :: nat) in
      if 48 \<le> n \<and> n \<le> 57 then Some (n - 48)
      else if 97 \<le> n \<and> n \<le> 102 then Some (n - 87)
      else if 65 \<le> n \<and> n \<le> 70 then Some (n - 55)
      else None)"

definition is_hex :: "char \<Rightarrow> bool" where
  "is_hex c = (hex_value c \<noteq> None)"

definition to_lower :: "char \<Rightarrow> char" where
  "to_lower c =
     (if 65 \<le> (of_char c :: nat) \<and> (of_char c :: nat) \<le> 90
      then char_of ((of_char c :: nat) + 32) else c)"

text \<open>\<^verbatim>\<open>s.isdigit()\<close> and \<^verbatim>\<open>s.isalnum()\<close>: false on the empty string.\<close>

definition isdigit :: "string \<Rightarrow> bool" where
  "isdigit s = (s \<noteq> [] \<and> list_all is_digit s)"

definition isalnum :: "string \<Rightarrow> bool" where
  "isalnum s = (s \<noteq> [] \<and> list_all is_alnum s)"

definition startswith :: "string \<Rightarrow> string \<Rightarrow> bool" where
  "startswith s p = (take (length p) s = p)"

text \<open>\<^verbatim>\<open>s.replace(old, new)\<close> for a non-empty \<open>old\<close>: leftmost occurrences, not overlapping.\<close>

function replace :: "string \<Rightarrow> string \<Rightarrow> string \<Rightarrow> string" where
  "replace old new s =
     (if old = [] \<or> s = [] then s
      else if startswith s old then new @ replace old new (drop (length old) s)
      else hd s # replace old new (tl s))"
  by pat_completeness auto
termination
  by (relation "measure (\<lambda>(old, new, s). length s)") auto

declare replace.simps [simp del]

text \<open>The digits of a number in base 16, lower case, as \<^verbatim>\<open>hex()\<close> prints them.\<close>

definition hexdigit_of :: "nat \<Rightarrow> char" where
  "hexdigit_of d = ''0123456789abcdef'' ! d"

fun hexdigits :: "nat \<Rightarrow> string" where
  "hexdigits n =
     (if n < 16 then [hexdigit_of n]
      else hexdigits (n div 16) @ [hexdigit_of (n mod 16)])"

declare hexdigits.simps [simp del]

text \<open>
  \<^verbatim>\<open>hex(n)\<close>. For a \<^verbatim>\<open>long\<close> Python 2 appends \<^verbatim>\<open>L\<close>, which the only caller strips
  again with \<^verbatim>\<open>rstrip('L')\<close>; the suffix is left out here and \<open>rstrip\<close> still applied.
\<close>

definition hex :: "int \<Rightarrow> string" where
  "hex n = (if n < 0 then ''-0x'' @ hexdigits (nat (- n)) else ''0x'' @ hexdigits (nat n))"

definition rstrip :: "char \<Rightarrow> string \<Rightarrow> string" where
  "rstrip c s = rev (dropWhile (\<lambda>x. x = c) (rev s))"

text \<open>\<^verbatim>\<open>s.zfill(width)\<close>: pads on the left behind a sign, never shortens.\<close>

definition zfill :: "nat \<Rightarrow> string \<Rightarrow> string" where
  "zfill width s =
     (if width \<le> length s then s
      else (case s of
              c # rest \<Rightarrow>
                (if c = CHR ''+'' \<or> c = CHR ''-''
                 then c # replicate (width - length s) CHR ''0'' @ rest
                 else replicate (width - length s) CHR ''0'' @ s)
            | [] \<Rightarrow> replicate width CHR ''0''))"

text \<open>The number a string of digits denotes in the given base, most significant first.\<close>

definition digits_value :: "nat \<Rightarrow> string \<Rightarrow> nat" where
  "digits_value base s = foldl (\<lambda>acc c. acc * base + the (hex_value c)) 0 s"

text \<open>\<^verbatim>\<open>int(s)\<close> on a string for which \<^verbatim>\<open>s.isdigit()\<close> holds.\<close>

definition int_decimal :: "string \<Rightarrow> int" where
  "int_decimal s = int (digits_value 10 s)"

text \<open>
  \<^verbatim>\<open>long(s, 16)\<close> on the text of an identifier: hexadecimal digits only (the text of an
  \<^verbatim>\<open>ObjectId\<close> has no prefix, sign or suffix).
\<close>

definition long16 :: "string \<Rightarrow> error + int" where
  "long16 s =
     (if s \<noteq> [] \<and> list_all is_hex s then Inr (int (digits_value 16 s))
      else Inl (ValueError ''invalid literal for long() with base 16''))"

text \<open>
  \<^verbatim>\<open>int(s, 0)\<close> on a string that starts with \<^verbatim>\<open>0x\<close> (the only strings the adapter passes):
  hexadecimal digits; CPython 2.7 with a 64-bit \<^verbatim>\<open>long\<close> hands a value that does not fit
  a machine word to the \<^verbatim>\<open>long\<close> parser, which accepts one trailing \<^verbatim>\<open>L\<close> or \<^verbatim>\<open>l\<close>.
\<close>

definition int_base0 :: "string \<Rightarrow> int option" where
  "int_base0 s =
     (if \<not> startswith s ''0x'' then None
      else
        (let ds = takeWhile is_hex (drop 2 s);
             rest = dropWhile is_hex (drop 2 s);
             v = digits_value 16 ds
         in if ds = [] then None
            else if rest = [] then Some (int v)
            else if (rest = ''L'' \<or> rest = ''l'') \<and> 2 ^ 63 \<le> v then Some (int v)
            else None))"

section \<open>The identifier codec\<close>

text \<open>
  \<^verbatim>\<open>bson.ObjectId(text)\<close> is a class of the driver, not of the adapter. It is modelled as
  the specification describes the native identifier: a 12-byte value whose text is 24
  hexadecimal digits; any other text is refused with \<^verbatim>\<open>InvalidId\<close>. \<^verbatim>\<open>str()\<close> of an
  identifier prints the digits in lower case, and two identifiers are equal when their
  bytes are, so the lower-case text represents the identifier.
\<close>

definition ObjectId :: "string \<Rightarrow> error + val" where
  "ObjectId hexvalue =
     (if length hexvalue = 24 \<and> list_all is_hex hexvalue
      then Inr (VObjectId (map to_lower hexvalue))
      else Inl (InvalidId hexvalue))"

text \<open>
  The part of the adapter object (\<^verbatim>\<open>self\<close>) that the compiler and the executor read.
  \<^item> \<open>aggregate\<close>: \<^verbatim>\<open>self.aggregate\<close>, true on the \<^verbatim>\<open>MongoDbAggregateExpander\<close>.
  \<^item> \<open>random_choice\<close>: the 24 characters that \<^verbatim>\<open>self.random.choice\<close> draws, \<open>None\<close>
    where the attribute \<^verbatim>\<open>random\<close> does not exist (the aggregate expander's
    \<^verbatim>\<open>__init__\<close> never sets it).
  \<^item> \<open>base_represent\<close>: \<^verbatim>\<open>NoSQLAdapter.represent\<close>, the generic coercion of the base
    adapter, which is not part of this file: a parameter.
  \<^item> \<open>repr_of\<close>: the interpreter's \<^verbatim>\<open>str()\<close> of a list, dictionary, byte array or date
    value: a parameter.
  \<^item> \<open>safe\<close>: \<^verbatim>\<open>self.safe\<close>, 1 or 0.
  \<^item> \<open>server_version\<close>: major and minor number of the server.
\<close>

record adapter =
  aggregate :: bool
  random_choice :: "string option"
  base_represent :: "val \<Rightarrow> string option \<Rightarrow> error + val"
  repr_of :: "val \<Rightarrow> string"
  safe :: int
  server_version :: "nat \<times> nat"

text \<open>Lines 165 to 169 of \<^verbatim>\<open>object_id\<close>: the integer becomes an identifier.\<close>

definition object_id_of_integer :: "val \<Rightarrow> error + val" where
  "object_id_of_integer arg =
     (case as_integer arg of
        None \<Rightarrow> Inl (TypeError ''object_id argument must be of type ObjectId or an objectid representable integer'')
      | Some n \<Rightarrow> ObjectId (zfill 24 (rstrip CHR ''L'' (drop 2 (hex n)))))"

definition object_id :: "adapter \<Rightarrow> val \<Rightarrow> error + val" where
  "object_id self arg0 =
     (let arg = (if \<not> truthy arg0 then VInt 0 else arg0) in
      case as_basestring arg of
        Some s \<Rightarrow>
          (let rawhex = (length (replace ''L'' '''' (replace ''0x'' '''' s)) = 24) in
           if isdigit s \<and> \<not> rawhex then object_id_of_integer (VInt (int_decimal s))
           else if s = ''<random>'' then
             (case random_choice self of
                None \<Rightarrow> Inl (AttributeError ''random'')
              | Some ds \<Rightarrow>
                  (case int_base0 (''0x'' @ ds @ ''L'') of
                     None \<Rightarrow> Inl (ValueError ''invalid literal for int() with base 0'')
                   | Some n \<Rightarrow> object_id_of_integer (VInt n)))
           else if isalnum s then
             (case int_base0 (if startswith s ''0x'' then s else ''0x'' @ s) of
                None \<Rightarrow> Inl (ValueError ''invalid objectid argument string'')
              | Some n \<Rightarrow> object_id_of_integer (VInt n))
           else Inl (ValueError ''Invalid objectid argument string. Requires an integer or base 16 value''))
      | None \<Rightarrow>
          (case arg of
             VObjectId h \<Rightarrow> Inr arg
           | _ \<Rightarrow> object_id_of_integer arg))"

text \<open>
  \<^verbatim>\<open>parse_id\<close>: an identifier is read back as \<^verbatim>\<open>long(str(value), 16)\<close> and handed to the
  base adapter's \<^verbatim>\<open>parse_id\<close>.

  Modelled from the spec: the base adapter's \<^verbatim>\<open>parse_id\<close> is not part of this file; by
  section 4.2 the result is the identifier's hexadecimal text read as a base-16 integer,
  so the base method passes the integer on.
\<close>

definition parse_id :: "val \<Rightarrow> error + val" where
  "parse_id v =
     (case v of
        VObjectId h \<Rightarrow> (case long16 h of Inl e \<Rightarrow> Inl e | Inr n \<Rightarrow> Inr (VInt n))
      | _ \<Rightarrow> Inr v)"

section \<open>The blob codec\<close>

definition USER_DEFINED_SUBTYPE :: nat where
  "USER_DEFINED_SUBTYPE = 128"

definition MONGO_BLOB_BYTES :: nat where
  "MONGO_BLOB_BYTES = USER_DEFINED_SUBTYPE"

definition MONGO_BLOB_NON_UTF8_STR :: nat where
  "MONGO_BLOB_NON_UTF8_STR = USER_DEFINED_SUBTYPE + 1"

text \<open>
  \<^verbatim>\<open>value.encode('utf-8')\<close> on a Python 2 \<^verbatim>\<open>str\<close> first decodes the bytes as ASCII: it
  succeeds exactly when every byte is below 128.
\<close>

definition encodes_utf8 :: "string \<Rightarrow> bool" where
  "encodes_utf8 s = list_all (\<lambda>c. (of_char c :: nat) < 128) s"

text \<open>\<^verbatim>\<open>Binary(data, subtype)\<close> of the driver: a byte string and a subtype below 256.\<close>

definition Binary :: "val \<Rightarrow> nat \<Rightarrow> error + val" where
  "Binary data subtype =
     (case as_basestring data of
        None \<Rightarrow> Inl (TypeError ''data must be an instance of str'')
      | Some s \<Rightarrow>
          (if subtype < 256 then Inr (VBinary s subtype)
           else Inl (ValueError ''subtype must be contained in [0, 256)'')))"

text \<open>\<^verbatim>\<open>MongoBlob(value)\<close>, that is \<^verbatim>\<open>MongoBlob.__new__\<close>: the encoder.\<close>

definition MongoBlob :: "val \<Rightarrow> error + val" where
  "MongoBlob v =
     (case v of
        VNone \<Rightarrow> Inr v
      | VBinary d t \<Rightarrow> Inr v
      | VByteArray b \<Rightarrow> Binary (VStr b) MONGO_BLOB_BYTES
      | VStr s \<Rightarrow>
          (if encodes_utf8 s then Inr v else Binary v MONGO_BLOB_NON_UTF8_STR)
      | _ \<Rightarrow> Binary v 0)"

text \<open>\<^verbatim>\<open>MongoBlob.decode\<close>.\<close>

definition decode :: "val \<Rightarrow> val" where
  "decode v =
     (case v of
        VBinary d t \<Rightarrow>
          (if t = MONGO_BLOB_BYTES then VByteArray d
           else if t = MONGO_BLOB_NON_UTF8_STR then VStr d
           else v)
      | _ \<Rightarrow> v)"

section \<open>More built-ins\<close>

text \<open>Iterating over a value (\<^verbatim>\<open>for x in v\<close>, \<^verbatim>\<open>list(v)\<close>).\<close>

fun py_iter :: "val \<Rightarrow> error + val list" where
  "py_iter (VList xs) = Inr xs"
| "py_iter (VStr s) = Inr (map (\<lambda>c. VStr [c]) s)"
| "py_iter (VBinary s t) = Inr (map (\<lambda>c. VStr [c]) s)"
| "py_iter (VByteArray s) = Inr (map (\<lambda>c. VInt (of_char c)) s)"
| "py_iter (VDict kvs) = Inr (map fst kvs)"
| "py_iter v = Inl (TypeError ''object is not iterable'')"

text \<open>A list comprehension over calls that may raise: the first exception ends it.\<close>

fun sequence :: "(error + 'a) list \<Rightarrow> error + 'a list" where
  "sequence [] = Inr []"
| "sequence (Inl e # rs) = Inl e"
| "sequence (Inr v # rs) = (case sequence rs of Inl e \<Rightarrow> Inl e | Inr vs \<Rightarrow> Inr (v # vs))"

text \<open>Lists, dictionaries and byte arrays cannot be dictionary keys.\<close>

fun hashable :: "val \<Rightarrow> bool" where
  "hashable (VList xs) = False"
| "hashable (VDict kvs) = False"
| "hashable (VByteArray b) = False"
| "hashable v = True"

text \<open>The dictionary display \<^verbatim>\<open>{k: v}\<close>.\<close>

definition dict1 :: "val \<Rightarrow> val \<Rightarrow> error + val" where
  "dict1 k v = (if hashable k then Inr (VDict [(k, v)]) else Inl (TypeError ''unhashable type''))"

text \<open>\<^verbatim>\<open>list(op)[0]\<close> and \<^verbatim>\<open>op[k]\<close>.\<close>

definition first_key :: "val \<Rightarrow> error + val" where
  "first_key op =
     (case py_iter op of
        Inl e \<Rightarrow> Inl e
      | Inr [] \<Rightarrow> Inl (IndexError ''list index out of range'')
      | Inr (k # ks) \<Rightarrow> Inr k)"

definition index_list :: "val list \<Rightarrow> int \<Rightarrow> error + val" where
  "index_list xs i =
     (if 0 \<le> i \<and> i < int (length xs) then Inr (xs ! nat i)
      else if i < 0 \<and> - i \<le> int (length xs) then Inr (xs ! nat (int (length xs) + i))
      else Inl (IndexError ''index out of range''))"

fun getitem :: "val \<Rightarrow> val \<Rightarrow> error + val" where
  "getitem (VDict kvs) k =
     (if \<not> hashable k then Inl (TypeError ''unhashable type'')
      else case map_of kvs k of None \<Rightarrow> Inl (KeyError ''key'') | Some v \<Rightarrow> Inr v)"
| "getitem (VList xs) k =
     (case as_integer k of
        None \<Rightarrow> Inl (TypeError ''list indices must be integers'')
      | Some i \<Rightarrow> index_list xs i)"
| "getitem (VStr s) k =
     (case as_integer k of
        None \<Rightarrow> Inl (TypeError ''string indices must be integers'')
      | Some i \<Rightarrow> index_list (map (\<lambda>c. VStr [c]) s) i)"
| "getitem (VBinary s t) k =
     (case as_integer k of
        None \<Rightarrow> Inl (TypeError ''string indices must be integers'')
      | Some i \<Rightarrow> index_list (map (\<lambda>c. VStr [c]) s) i)"
| "getitem (VByteArray s) k =
     (case as_integer k of
        None \<Rightarrow> Inl (TypeError ''bytearray indices must be integers'')
      | Some i \<Rightarrow> index_list (map (\<lambda>c. VInt (of_char c)) s) i)"
| "getitem v k = Inl (TypeError ''object has no attribute __getitem__'')"

text \<open>Decimal digits, and \<^verbatim>\<open>'%s' % v\<close> (that is \<^verbatim>\<open>str(v)\<close>).\<close>

fun decdigits :: "nat \<Rightarrow> string" where
  "decdigits n =
     (if n < 10 then [hexdigit_of n]
      else decdigits (n div 10) @ [hexdigit_of (n mod 10)])"

declare decdigits.simps [simp del]

definition py_str :: "adapter \<Rightarrow> val \<Rightarrow> string" where
  "py_str self v =
     (case v of
        VStr s \<Rightarrow> s
      | VBinary s t \<Rightarrow> s
      | VNone \<Rightarrow> ''None''
      | VBool b \<Rightarrow> (if b then ''True'' else ''False'')
      | VInt n \<Rightarrow> (if n < 0 then ''-'' @ decdigits (nat (- n)) else decdigits (nat n))
      | VObjectId h \<Rightarrow> h
      | _ \<Rightarrow> repr_of self v)"

text \<open>\<^verbatim>\<open>sub in s\<close> on strings.\<close>

primrec contains_str :: "string \<Rightarrow> string \<Rightarrow> bool" where
  "contains_str [] sub = (sub = [])"
| "contains_str (c # cs) sub = (startswith (c # cs) sub \<or> contains_str cs sub)"

text \<open>\<^verbatim>\<open>c in base\<close> for a one-character string \<open>c\<close>.\<close>

fun char_in :: "char \<Rightarrow> val \<Rightarrow> error + bool" where
  "char_in c (VStr s) = Inr (c \<in> set s)"
| "char_in c (VBinary s t) = Inr (c \<in> set s)"
| "char_in c (VList xs) = Inr (VStr [c] \<in> set xs)"
| "char_in c (VDict kvs) = Inr (VStr [c] \<in> set (map fst kvs))"
| "char_in c (VByteArray s) = Inr (c \<in> set s)"
| "char_in c v = Inl (TypeError ''argument is not iterable'')"

text \<open>
  \<^verbatim>\<open>re.escape\<close> of Python 2.7: every character that is not an ASCII letter or digit
  gets a backslash in front; the NUL character becomes \<^verbatim>\<open>\000\<close>.
\<close>

definition re_escape :: "string \<Rightarrow> string" where
  "re_escape s =
     concat (map (\<lambda>c. if is_alnum c then [c]
                       else if c = CHR 0x00 then [CHR 0x5C, CHR ''0'', CHR ''0'', CHR ''0'']
                       else [CHR 0x5C, c]) s)"

section \<open>Value coercion\<close>

text \<open>\<^verbatim>\<open>datetime.datetime.combine\<close> with midnight, and with the first day of 2000.\<close>

fun combine_date :: "val \<Rightarrow> error + val" where
  "combine_date (VDate y m d) = Inr (VDateTime y m d 0 0 0)"
| "combine_date (VDateTime y m d hh mm ss) = Inr (VDateTime y m d 0 0 0)"
| "combine_date v = Inl (TypeError ''combine() argument 1 must be datetime.date'')"

fun combine_time :: "val \<Rightarrow> error + val" where
  "combine_time (VTime hh mm ss) = Inr (VDateTime 2000 1 1 hh mm ss)"
| "combine_time v = Inl (TypeError ''combine() argument 2 must be datetime.time'')"

text \<open>
  \<^verbatim>\<open>represent\<close>. Field types are strings (a field type given as a \<^verbatim>\<open>Table\<close> object is
  outside the model); \<open>None\<close> is the absent type.
\<close>

definition represent :: "adapter \<Rightarrow> val \<Rightarrow> string option \<Rightarrow> error + val" where
  "represent self obj fieldtype =
     (case (case obj of VObjectId h \<Rightarrow> Inr obj | _ \<Rightarrow> base_represent self obj fieldtype) of
        Inl e \<Rightarrow> Inl e
      | Inr v \<Rightarrow>
          (if fieldtype = Some ''date'' then (if v = VNone then Inr v else combine_date v)
           else if fieldtype = Some ''time'' then (if v = VNone then Inr v else combine_time v)
           else if fieldtype = Some ''blob'' then MongoBlob v
           else case fieldtype of
                  None \<Rightarrow> Inr v
                | Some t \<Rightarrow>
                    (if startswith t ''list:'' then
                       (if startswith t ''list:reference'' then
                          (case py_iter v of
                             Inl e \<Rightarrow> Inl e
                           | Inr items \<Rightarrow>
                               (case sequence (map (object_id self) items) of
                                  Inl e \<Rightarrow> Inl e
                                | Inr ids \<Rightarrow> Inr (VList ids)))
                        else Inr v)
                     else if startswith t ''reference'' \<or> t = ''id'' then object_id self v
                     else Inr v)))"

section \<open>The query algebra\<close>

text \<open>
  The objects of \<^verbatim>\<open>pydal.objects\<close> that the compiler consumes. A \<^verbatim>\<open>Field\<close> has a name,
  a declared type, the name of its table and an on-delete policy. An operator is the
  adapter method stored in \<^verbatim>\<open>expression.op\<close>, or a string. Operators whose bodies
  differ only in the name of the native operator share a constructor: \<open>OpBool\<close> for
  \<^verbatim>\<open>AND\<close>, \<^verbatim>\<open>OR\<close>; \<open>OpCmp\<close> for \<^verbatim>\<open>LT\<close>, \<^verbatim>\<open>LE\<close>, \<^verbatim>\<open>GT\<close>, \<^verbatim>\<open>GE\<close>; \<open>OpArith\<close> for \<^verbatim>\<open>SUB\<close>,
  \<^verbatim>\<open>MUL\<close>, \<^verbatim>\<open>DIV\<close>, \<^verbatim>\<open>MOD\<close>. An absent operand is \<open>Lit VNone\<close>. Literal operands are
  values; a \<^verbatim>\<open>Query\<close> has no \<^verbatim>\<open>type\<close> attribute, an \<^verbatim>\<open>Expression\<close> has one.
\<close>

record Field =
  fname :: string
  ftype :: string
  tablename :: string
  ondelete :: string

type_synonym kwargs = "(string \<times> val) list"

datatype bool_op = AND | OR

datatype cmp_op = LT | LE | GT | GE

datatype arith_op = SUB | MUL | DIV | MOD

datatype opr =
    OpINVERT | OpNOT | OpBool bool_op | OpBELONGS | OpEQ | OpNE | OpCmp cmp_op
  | OpADD | OpArith arith_op | OpAGGREGATE | OpCOUNT | OpAS | OpON | OpCOMMA
  | OpLIKE | OpILIKE | OpSTARTSWITH | OpENDSWITH | OpCONTAINS | OpStr string

datatype expr =
    Lit val
  | Fld Field
  | Query opr expr expr kwargs
  | Expression opr expr expr "string option" kwargs

text \<open>\<^verbatim>\<open>isinstance(op, str)\<close>.\<close>

fun op_string :: "opr \<Rightarrow> string option" where
  "op_string (OpStr s) = Some s"
| "op_string op = None"

fun bool_name :: "bool_op \<Rightarrow> string" where
  "bool_name AND = ''$and''"
| "bool_name OR = ''$or''"

fun cmp_name :: "cmp_op \<Rightarrow> string" where
  "cmp_name LT = ''$lt''"
| "cmp_name LE = ''$lte''"
| "cmp_name GT = ''$gt''"
| "cmp_name GE = ''$gte''"

fun arith_name :: "arith_op \<Rightarrow> string" where
  "arith_name SUB = ''$subtract''"
| "arith_name MUL = ''$multiply''"
| "arith_name DIV = ''$divide''"
| "arith_name MOD = ''$mod''"

text \<open>\<^verbatim>\<open>_aggregate_map\<close>.\<close>

definition aggregate_map :: "string \<Rightarrow> string option" where
  "aggregate_map = map_of [(''SUM'', ''$sum''), (''MAX'', ''$max''), (''MIN'', ''$min''), (''AVG'', ''$avg'')]"

text \<open>The attribute \<^verbatim>\<open>x.type\<close>: literals and queries have none.\<close>

fun attr_type :: "expr \<Rightarrow> error + string option" where
  "attr_type (Fld f) = Inr (Some (ftype f))"
| "attr_type (Expression op a b t kw) = Inr t"
| "attr_type e = Inl (AttributeError ''type'')"

text \<open>Keyword arguments: an unexpected keyword is a \<^verbatim>\<open>TypeError\<close> of the call.\<close>

definition kw_allowed :: "kwargs \<Rightarrow> string list \<Rightarrow> bool" where
  "kw_allowed kw names = list_all (\<lambda>(k, v). k \<in> set names) kw"

definition kw_get :: "kwargs \<Rightarrow> string \<Rightarrow> val \<Rightarrow> val" where
  "kw_get kw k d = (case map_of kw k of None \<Rightarrow> d | Some v \<Rightarrow> v)"

definition bad_call :: error where
  "bad_call = TypeError ''the call does not match the signature''"

text \<open>The number of operator nodes of a tree.\<close>

fun esize :: "expr \<Rightarrow> nat" where
  "esize (Lit v) = 0"
| "esize (Fld f) = 0"
| "esize (Query op a b kw) = Suc (esize a + esize b)"
| "esize (Expression op a b t kw) = Suc (esize a + esize b)"

fun esize_opt :: "expr option \<Rightarrow> nat" where
  "esize_opt None = 0"
| "esize_opt (Some e) = esize e"

section \<open>The expression compiler\<close>

text \<open>
  The last three branches of \<^verbatim>\<open>expand\<close>, for an operand that is not a \<^verbatim>\<open>Field\<close>,
  \<^verbatim>\<open>Expression\<close> or \<^verbatim>\<open>Query\<close>: with a field type the value is coerced, without one a list is
  coerced element by element and anything else returned as it is.
\<close>

definition expand_literal :: "adapter \<Rightarrow> val \<Rightarrow> string option \<Rightarrow> error + val" where
  "expand_literal self v field_type =
     (if field_type \<noteq> None \<and> field_type \<noteq> Some [] then represent self v field_type
      else case v of
             VList items \<Rightarrow>
               (case sequence (map (\<lambda>item. represent self item field_type) items) of
                  Inl e \<Rightarrow> Inl e
                | Inr vs \<Rightarrow> Inr (VList vs))
           | _ \<Rightarrow> Inr v)"

text \<open>Lines 264 and 265 of \<^verbatim>\<open>expand\<close>: the name of an \<^verbatim>\<open>id\<close> field is overwritten.\<close>

definition rename_id :: "Field \<Rightarrow> Field" where
  "rename_id f = (if ftype f = ''id'' then f\<lparr>fname := ''_id''\<rparr> else f)"

text \<open>
  Lines 267 to 271 of \<^verbatim>\<open>expand\<close>: the right operand of a query on an identifier or
  reference field is cast to an identifier, element by element when it is a list. An
  operand that is itself a field, expression or query is of the wrong type for
  \<^verbatim>\<open>object_id\<close>.
\<close>

definition coerce_second :: "adapter \<Rightarrow> expr \<Rightarrow> error + expr" where
  "coerce_second self second =
     (case second of
        Lit (VList items) \<Rightarrow>
          (case sequence (map (object_id self) items) of
             Inl e \<Rightarrow> Inl e
           | Inr ids \<Rightarrow> Inr (Lit (VList ids)))
      | Lit v \<Rightarrow> (case object_id self v of Inl e \<Rightarrow> Inl e | Inr i \<Rightarrow> Inr (Lit i))
      | _ \<Rightarrow> Inl (TypeError ''object_id argument must be of type ObjectId or an objectid representable integer''))"

text \<open>
  The second half of \<^verbatim>\<open>NOT\<close>, for a body that is not a list: a lone \<^verbatim>\<open>$ne\<close> is
  undone; a body without \<^verbatim>\<open>keys()\<close> lands in the \<^verbatim>\<open>except\<close> branch and is wrapped in
  \<^verbatim>\<open>$ne\<close>; any other dictionary is wrapped in \<^verbatim>\<open>$not\<close>.
\<close>

definition NOT_plain :: "val \<Rightarrow> val \<Rightarrow> error + val" where
  "NOT_plain op_k op_body =
     (case op_body of
        VDict kvs \<Rightarrow>
          (if map fst kvs = [VStr ''$ne''] then
             (case dict1 op_k (snd (hd kvs)) of
                Inr r \<Rightarrow> Inr r
              | Inl e \<Rightarrow> dict1 op_k (VDict [(VStr ''$ne'', op_body)]))
           else dict1 op_k (VDict [(VStr ''$not'', op_body)]))
      | _ \<Rightarrow> dict1 op_k (VDict [(VStr ''$ne'', op_body)]))"

text \<open>
  \<^verbatim>\<open>_build_like_regex\<close> after its first line, \<open>base\<close> being the expanded argument.
  \<^verbatim>\<open>re.escape\<close> raises on anything but a string; the class of that exception is not
  distinguished.
\<close>

definition need_regex :: "val \<Rightarrow> bool \<Rightarrow> bool \<Rightarrow> bool \<Rightarrow> bool \<Rightarrow> bool \<Rightarrow> error + bool" where
  "need_regex base case_sensitive ends_with starts_with whole_string like_wildcards =
     (if whole_string \<or> \<not> case_sensitive \<or> starts_with \<or> ends_with then Inr True
      else if like_wildcards then
        (case char_in CHR ''_'' base of
           Inl e \<Rightarrow> Inl e
         | Inr True \<Rightarrow> Inr True
         | Inr False \<Rightarrow> char_in CHR ''%'' base)
      else Inr False)"

definition like_regex :: "val \<Rightarrow> bool \<Rightarrow> bool \<Rightarrow> bool \<Rightarrow> bool \<Rightarrow> bool \<Rightarrow> error + val" where
  "like_regex base case_sensitive ends_with starts_with whole_string like_wildcards =
     (case need_regex base case_sensitive ends_with starts_with whole_string like_wildcards of
        Inl e \<Rightarrow> Inl e
      | Inr False \<Rightarrow> Inr base
      | Inr True \<Rightarrow>
          (case as_basestring base of
             None \<Rightarrow> Inl (TypeError ''re.escape'')
           | Some b \<Rightarrow>
               (let expr0 = re_escape b;
                    expr = (if like_wildcards
                            then replace ''_'' ''.''
                                   (replace [CHR 0x5C, CHR ''_''] ''.''
                                      (replace [CHR 0x5C, CHR ''%''] ''.*'' expr0))
                            else expr0);
                    pattern = (if starts_with then ''^'' @ expr
                               else if ends_with then expr @ ''$''
                               else if whole_string then ''^'' @ expr @ ''$''
                               else expr)
                in Inr (VDict ((VStr ''$regex'', VStr pattern) #
                               (if \<not> case_sensitive then [(VStr ''$options'', VStr ''i'')] else []))))))"

text \<open>The \<^verbatim>\<open>$where\<close> branch of \<^verbatim>\<open>CONTAINS\<close>: a list-of-strings field against a string field.\<close>

fun where_clause :: "expr \<Rightarrow> expr \<Rightarrow> val option" where
  "where_clause (Fld f) (Fld g) =
     (if ftype f = ''list:string'' \<and> ftype g = ''string''
      then Some (VDict [(VStr ''$where'',
                         VStr (''this.'' @ fname f @ ''.indexOf(this.'' @ fname g @ '') > -1''))])
      else None)"
| "where_clause a b = None"

text \<open>\<^verbatim>\<open>isinstance(second, self.ObjectId)\<close> on an operand.\<close>

fun oid_literal :: "expr \<Rightarrow> val option" where
  "oid_literal (Lit (VObjectId h)) = Some (VObjectId h)"
| "oid_literal e = None"

fun is_list_string :: "expr \<Rightarrow> bool" where
  "is_list_string (Fld f) = (ftype f = ''list:string'')"
| "is_list_string e = False"

text \<open>\<^verbatim>\<open>field.type in ['string', 'text', 'password']\<close> inside \<^verbatim>\<open>try\<close>: an operand without a type is skipped.\<close>

definition textual :: "expr \<Rightarrow> bool" where
  "textual e =
     (case attr_type e of
        Inr (Some t) \<Rightarrow> t \<in> set [''string'', ''text'', ''password'']
      | _ \<Rightarrow> False)"

text \<open>
  The \<^verbatim>\<open>MongoDbAggregateExpander\<close> behind \<^verbatim>\<open>self.expand_aggregate\<close>: its \<^verbatim>\<open>aggregate\<close> is
  true and it has no attribute \<^verbatim>\<open>random\<close>.
\<close>

definition aggregate_expander :: "adapter \<Rightarrow> adapter" where
  "aggregate_expander self = self\<lparr>aggregate := True, random_choice := None\<rparr>"

text \<open>
  \<^verbatim>\<open>expand\<close> and the operators it dispatches to. The compiler assigns to attributes of
  the tree it is given (\<^verbatim>\<open>expression.first.name\<close>, \<^verbatim>\<open>expression.second\<close>), and an
  assignment stays when an exception is raised later, so every function returns the
  tree as it is left behind together with the result or the exception.
  \<^item> \<open>expand self expression field_type\<close> is \<^verbatim>\<open>self.expand(expression, field_type)\<close>.
  \<^item> \<open>dispatch\<close> is lines 282 to 293: the operator is called with both operands, with
    the first only, or with none, by which of them are \<^verbatim>\<open>None\<close>.
  \<^item> \<open>call self op first so kw\<close> is \<^verbatim>\<open>op.__func__(self, first, second, **kw)\<close> when \<open>so\<close>
    is \<open>Some second\<close>, and \<^verbatim>\<open>op.__func__(self, first, **kw)\<close> when it is \<open>None\<close>; it returns
    the operands as they are left.
  \<^item> \<open>build_like_regex\<close> is \<^verbatim>\<open>_build_like_regex\<close>.
  Python 2.7 evaluates the value of a dictionary display before its key, so in
  \<^verbatim>\<open>{self.expand(first): self.expand(second, first.type)}\<close> the second operand is expanded
  first; the elements of a list display are evaluated from left to right.
\<close>

function expand :: "adapter \<Rightarrow> expr \<Rightarrow> string option \<Rightarrow> expr \<times> (error + val)"
  and dispatch :: "adapter \<Rightarrow> opr \<Rightarrow> expr \<Rightarrow> expr \<Rightarrow> kwargs \<Rightarrow> (expr \<times> expr) \<times> (error + val)"
  and call :: "adapter \<Rightarrow> opr \<Rightarrow> expr \<Rightarrow> expr option \<Rightarrow> kwargs \<Rightarrow> (expr \<times> expr option) \<times> (error + val)"
  and build_like_regex :: "adapter \<Rightarrow> expr \<Rightarrow> bool \<Rightarrow> bool \<Rightarrow> bool \<Rightarrow> bool \<Rightarrow> bool \<Rightarrow> expr \<times> (error + val)"
where
  "expand self (Fld f) field_type =
     (Fld f, Inr (VStr (if ftype f = ''id'' then ''_id''
                        else if aggregate self then ''$'' @ fname f
                        else fname f)))"
| "expand self (Lit v) field_type = (Lit v, expand_literal self v field_type)"
| "expand self (Query op first second kw) field_type =
     (case first of
        Fld f \<Rightarrow>
          (if ftype f = ''id'' \<or> contains_str (ftype f) ''reference'' then
             (case coerce_second self second of
                Inl e \<Rightarrow>
                  (Query op (Fld (rename_id f)) second kw, Inl e)
              | Inr second1 \<Rightarrow>
                  (case dispatch self op (Fld (rename_id f)) second1 kw of
                     ((first', second'), r) \<Rightarrow> (Query op first' second' kw, r)))
           else (case dispatch self op first second kw of
                   ((first', second'), r) \<Rightarrow> (Query op first' second' kw, r)))
      | _ \<Rightarrow>
          (case dispatch self op first second kw of
             ((first', second'), r) \<Rightarrow> (Query op first' second' kw, r)))"
| "expand self (Expression op first second t kw) field_type =
     (case dispatch self op first second kw of
        ((first', second'), r) \<Rightarrow> (Expression op first' second' t kw, r))"
| "dispatch self op first second kw =
     (if second \<noteq> Lit VNone then
        (case op_string op of
           Some s \<Rightarrow> ((first, second), Inl (AttributeError ''__func__''))
         | None \<Rightarrow>
             (case call self op first (Some second) kw of
                ((first', Some second'), r) \<Rightarrow> ((first', second'), r)
              | ((first', None), r) \<Rightarrow> ((first', second), r)))
      else if first \<noteq> Lit VNone then
        (case op_string op of
           Some s \<Rightarrow> ((first, second), Inl (AttributeError ''__func__''))
         | None \<Rightarrow>
             (case call self op first None kw of
                ((first', so'), r) \<Rightarrow> ((first', second), r)))
      else
        (case op_string op of
           Some s \<Rightarrow> ((first, second), Inr (VStr s))
         | None \<Rightarrow> ((first, second), Inl bad_call)))"
| "call self OpINVERT first so kw =
     (if so \<noteq> None \<or> kw \<noteq> [] then ((first, so), Inl bad_call)
      else
        (case expand self first None of
           (first1, Inl e) \<Rightarrow> ((first1, so), Inl e)
         | (first1, Inr v) \<Rightarrow> ((first1, so), Inr (VStr (''-'' @ py_str self v)))))"
| "call self OpNOT first so kw =
     (if so \<noteq> None \<or> kw \<noteq> [] then ((first, so), Inl bad_call)
      else
        (case expand self first None of
           (first1, Inl e) \<Rightarrow> ((first1, so), Inl e)
         | (first1, Inr op) \<Rightarrow>
             (case first_key op of
                Inl e \<Rightarrow> ((first1, so), Inl e)
              | Inr op_k \<Rightarrow>
                  (case getitem op op_k of
                     Inl e \<Rightarrow> ((first1, so), Inl e)
                   | Inr op_body \<Rightarrow>
                       (case op_body of
                          VList branches \<Rightarrow>
                            (case first1 of
                               Query op1 a b kw1 \<Rightarrow>
                                 (case call self OpNOT a None [] of
                                    ((a', x), Inl e) \<Rightarrow> ((Query op1 a' b kw1, so), Inl e)
                                  | ((a', x), Inr ra) \<Rightarrow>
                                      (case call self OpNOT b None [] of
                                         ((b', y), Inl e) \<Rightarrow> ((Query op1 a' b' kw1, so), Inl e)
                                       | ((b', y), Inr rb) \<Rightarrow>
                                           ((Query op1 a' b' kw1, so),
                                            Inr (VDict [(VStr (if op_k = VStr ''$or'' then ''$and'' else ''$or''),
                                                         VList [ra, rb])]))))
                             | Expression op1 a b t1 kw1 \<Rightarrow>
                                 (case call self OpNOT a None [] of
                                    ((a', x), Inl e) \<Rightarrow> ((Expression op1 a' b t1 kw1, so), Inl e)
                                  | ((a', x), Inr ra) \<Rightarrow>
                                      (case call self OpNOT b None [] of
                                         ((b', y), Inl e) \<Rightarrow> ((Expression op1 a' b' t1 kw1, so), Inl e)
                                       | ((b', y), Inr rb) \<Rightarrow>
                                           ((Expression op1 a' b' t1 kw1, so),
                                            Inr (VDict [(VStr (if op_k = VStr ''$or'' then ''$and'' else ''$or''),
                                                         VList [ra, rb])]))))
                             | Fld f \<Rightarrow> ((first1, so), Inl (TypeError ''NoneType object is not iterable''))
                             | Lit v \<Rightarrow> ((first1, so), Inl (AttributeError ''first'')))
                        | _ \<Rightarrow> ((first1, so), NOT_plain op_k op_body))))))"
| "call self (OpBool bop) first so kw =
     (case so of
        None \<Rightarrow> ((first, so), Inl bad_call)
      | Some second \<Rightarrow>
          (if kw \<noteq> [] then ((first, so), Inl bad_call)
           else
             (case expand self first None of
                (first1, Inl e) \<Rightarrow> ((first1, so), Inl e)
              | (first1, Inr v1) \<Rightarrow>
                  (case expand self second None of
                     (second1, Inl e) \<Rightarrow> ((first1, Some second1), Inl e)
                   | (second1, Inr v2) \<Rightarrow>
                       ((first1, Some second1), Inr (VDict [(VStr (bool_name bop), VList [v1, v2])]))))))"
| "call self OpBELONGS first so kw =
     (case so of
        None \<Rightarrow> ((first, so), Inl bad_call)
      | Some second \<Rightarrow>
          (if kw \<noteq> [] then ((first, so), Inl bad_call)
           else
             (case second of
                Lit sv \<Rightarrow>
                  (if as_basestring sv \<noteq> None
                   then ((first, so), Inl (RuntimeError ''nested queries not supported''))
                   else
                     (case py_iter sv of
                        Inl e \<Rightarrow> ((first, so), Inl e)
                      | Inr elems \<Rightarrow>
                          (case (if elems = [] then Inr []
                                 else case attr_type first of
                                        Inl e \<Rightarrow> Inl e
                                      | Inr t \<Rightarrow> sequence (map (\<lambda>item. expand_literal self item t) elems)) of
                             Inl e \<Rightarrow> ((first, so), Inl e)
                           | Inr items \<Rightarrow>
                               (case expand self first None of
                                  (first1, Inl e) \<Rightarrow> ((first1, so), Inl e)
                                | (first1, Inr k) \<Rightarrow>
                                    ((first1, so), dict1 k (VDict [(VStr ''$in'', VList items)]))))))
              | _ \<Rightarrow> ((first, so), Inl (SyntaxError ''Not supported'')))))"
| "call self OpEQ first so kw =
     (if kw \<noteq> [] then ((first, so), Inl bad_call)
      else
        (case attr_type first of
           Inl e \<Rightarrow> ((first, so), Inl e)
         | Inr t \<Rightarrow>
             (case expand self (case so of None \<Rightarrow> Lit VNone | Some second \<Rightarrow> second) t of
                (second1, Inl e) \<Rightarrow> ((first, map_option (\<lambda>x. second1) so), Inl e)
              | (second1, Inr v) \<Rightarrow>
                  (case expand self first None of
                     (first1, Inl e) \<Rightarrow> ((first1, map_option (\<lambda>x. second1) so), Inl e)
                   | (first1, Inr k) \<Rightarrow> ((first1, map_option (\<lambda>x. second1) so), dict1 k v)))))"
| "call self OpNE first so kw =
     (if kw \<noteq> [] then ((first, so), Inl bad_call)
      else
        (case attr_type first of
           Inl e \<Rightarrow> ((first, so), Inl e)
         | Inr t \<Rightarrow>
             (case expand self (case so of None \<Rightarrow> Lit VNone | Some second \<Rightarrow> second) t of
                (second1, Inl e) \<Rightarrow> ((first, map_option (\<lambda>x. second1) so), Inl e)
              | (second1, Inr v) \<Rightarrow>
                  (case expand self first None of
                     (first1, Inl e) \<Rightarrow> ((first1, map_option (\<lambda>x. second1) so), Inl e)
                   | (first1, Inr k) \<Rightarrow>
                       ((first1, map_option (\<lambda>x. second1) so), dict1 k (VDict [(VStr ''$ne'', v)]))))))"
| "call self (OpCmp cop) first so kw =
     (if kw \<noteq> [] then ((first, so), Inl bad_call)
      else if so = None \<or> so = Some (Lit VNone)
      then ((first, so), Inl (RuntimeError ''Cannot compare with None''))
      else
        (case attr_type first of
           Inl e \<Rightarrow> ((first, so), Inl e)
         | Inr t \<Rightarrow>
             (case expand self (case so of None \<Rightarrow> Lit VNone | Some second \<Rightarrow> second) t of
                (second1, Inl e) \<Rightarrow> ((first, map_option (\<lambda>x. second1) so), Inl e)
              | (second1, Inr v) \<Rightarrow>
                  (case expand self first None of
                     (first1, Inl e) \<Rightarrow> ((first1, map_option (\<lambda>x. second1) so), Inl e)
                   | (first1, Inr k) \<Rightarrow>
                       ((first1, map_option (\<lambda>x. second1) so), dict1 k (VDict [(VStr (cmp_name cop), v)]))))))"
| "call self OpADD first so kw =
     (case so of
        None \<Rightarrow> ((first, so), Inl bad_call)
      | Some second \<Rightarrow>
          (if kw \<noteq> [] then ((first, so), Inl bad_call)
           else
             (case expand self first None of
                (first1, Inl e) \<Rightarrow> ((first1, so), Inl e)
              | (first1, Inr v1) \<Rightarrow>
                  (case attr_type first1 of
                     Inl e \<Rightarrow> ((first1, so), Inl e)
                   | Inr t \<Rightarrow>
                       (case expand self second t of
                          (second1, Inl e) \<Rightarrow> ((first1, Some second1), Inl e)
                        | (second1, Inr v2) \<Rightarrow>
                            ((first1, Some second1),
                             Inr (VDict [(VStr (if textual first \<or> textual second then ''$concat'' else ''$add''),
                                          VList [v1, v2])])))))))"
| "call self (OpArith aop) first so kw =
     (case so of
        None \<Rightarrow> ((first, so), Inl bad_call)
      | Some second \<Rightarrow>
          (if kw \<noteq> [] then ((first, so), Inl bad_call)
           else
             (case expand self first None of
                (first1, Inl e) \<Rightarrow> ((first1, so), Inl e)
              | (first1, Inr v1) \<Rightarrow>
                  (case attr_type first1 of
                     Inl e \<Rightarrow> ((first1, so), Inl e)
                   | Inr t \<Rightarrow>
                       (case expand self second t of
                          (second1, Inl e) \<Rightarrow> ((first1, Some second1), Inl e)
                        | (second1, Inr v2) \<Rightarrow>
                            ((first1, Some second1),
                             Inr (VDict [(VStr (arith_name aop), VList [v1, v2])])))))))"
| "call self OpAGGREGATE first so kw =
     (case so of
        None \<Rightarrow> ((first, so), Inl bad_call)
      | Some what \<Rightarrow>
          (if kw \<noteq> [] then ((first, so), Inl bad_call)
           else
             (case expand (aggregate_expander self) first None of
                (first1, Inl e) \<Rightarrow> ((first1, so), Inl (NotImplementedError ''not implemented''))
              | (first1, Inr v) \<Rightarrow>
                  ((first1, so),
                   (case what of
                      Lit (VStr w) \<Rightarrow>
                        (case aggregate_map w of
                           None \<Rightarrow> Inl (NotImplementedError ''not implemented'')
                         | Some code \<Rightarrow> Inr (VDict [(VStr code, v)]))
                    | _ \<Rightarrow> Inl (NotImplementedError ''not implemented''))))))"
| "call self OpCOUNT first so kw =
     (if \<not> kw_allowed kw [''distinct''] \<or> (so \<noteq> None \<and> kw \<noteq> []) then ((first, so), Inl bad_call)
      else if (case so of
                 Some (Lit v) \<Rightarrow> truthy v
               | Some other \<Rightarrow> True
               | None \<Rightarrow> truthy (kw_get kw ''distinct'' VNone))
      then ((first, so), Inl (NotImplementedError ''distinct not implmented for count op''))
      else ((first, so), Inr (VDict [(VStr ''$sum'', VInt 1)])))"
| "call self OpAS first so kw =
     (if so = None \<or> kw \<noteq> [] then ((first, so), Inl bad_call)
      else ((first, so),
            Inl (NotImplementedError ''This must yet be replaced with javascript in order to work.'')))"
| "call self OpON first so kw =
     (if so = None \<or> kw \<noteq> [] then ((first, so), Inl bad_call)
      else ((first, so),
            Inl (NotImplementedError ''This is not possible in NoSQL but can be simulated with a wrapper.'')))"
| "call self OpCOMMA first so kw =
     (case so of
        None \<Rightarrow> ((first, so), Inl bad_call)
      | Some second \<Rightarrow>
          (if kw \<noteq> [] then ((first, so), Inl bad_call)
           else
             (case expand self first None of
                (first1, Inl e) \<Rightarrow> ((first1, so), Inl e)
              | (first1, Inr v1) \<Rightarrow>
                  (case expand self second None of
                     (second1, Inl e) \<Rightarrow> ((first1, Some second1), Inl e)
                   | (second1, Inr v2) \<Rightarrow>
                       ((first1, Some second1), Inr (VStr (py_str self v1 @ '', '' @ py_str self v2)))))))"
| "call self OpLIKE first so kw =
     (case so of
        None \<Rightarrow> ((first, so), Inl bad_call)
      | Some second \<Rightarrow>
          (if \<not> kw_allowed kw [''case_sensitive'', ''escape''] then ((first, so), Inl bad_call)
           else
             (case build_like_regex self second (truthy (kw_get kw ''case_sensitive'' (VBool True)))
                     False False True True of
                (second1, Inl e) \<Rightarrow> ((first, Some second1), Inl e)
              | (second1, Inr regex) \<Rightarrow>
                  (case expand self first None of
                     (first1, Inl e) \<Rightarrow> ((first1, Some second1), Inl e)
                   | (first1, Inr k) \<Rightarrow> ((first1, Some second1), dict1 k regex)))))"
| "call self OpILIKE first so kw =
     (if so = None \<or> \<not> kw_allowed kw [''escape''] then ((first, so), Inl bad_call)
      else call self OpLIKE first so
             [(''case_sensitive'', VBool False), (''escape'', kw_get kw ''escape'' VNone)])"
| "call self OpSTARTSWITH first so kw =
     (case so of
        None \<Rightarrow> ((first, so), Inl bad_call)
      | Some second \<Rightarrow>
          (if kw \<noteq> [] then ((first, so), Inl bad_call)
           else
             (case build_like_regex self second True False True True False of
                (second1, Inl e) \<Rightarrow> ((first, Some second1), Inl e)
              | (second1, Inr regex) \<Rightarrow>
                  (case expand self first None of
                     (first1, Inl e) \<Rightarrow> ((first1, Some second1), Inl e)
                   | (first1, Inr k) \<Rightarrow> ((first1, Some second1), dict1 k regex)))))"
| "call self OpENDSWITH first so kw =
     (case so of
        None \<Rightarrow> ((first, so), Inl bad_call)
      | Some second \<Rightarrow>
          (if kw \<noteq> [] then ((first, so), Inl bad_call)
           else
             (case build_like_regex self second True True False True False of
                (second1, Inl e) \<Rightarrow> ((first, Some second1), Inl e)
              | (second1, Inr regex) \<Rightarrow>
                  (case expand self first None of
                     (first1, Inl e) \<Rightarrow> ((first1, Some second1), Inl e)
                   | (first1, Inr k) \<Rightarrow> ((first1, Some second1), dict1 k regex)))))"
| "call self OpCONTAINS first so kw =
     (case so of
        None \<Rightarrow> ((first, so), Inl bad_call)
      | Some second \<Rightarrow>
          (if \<not> kw_allowed kw [''case_sensitive''] then ((first, so), Inl bad_call)
           else
             (case oid_literal second of
                Some v \<Rightarrow>
                  (case expand self first None of
                     (first1, Inl e) \<Rightarrow> ((first1, so), Inl e)
                   | (first1, Inr k) \<Rightarrow> ((first1, so), dict1 k v))
              | None \<Rightarrow>
                  (case where_clause first second of
                     Some ret \<Rightarrow> ((first, so), Inr ret)
                   | None \<Rightarrow>
                       (case build_like_regex self second
                               (truthy (kw_get kw ''case_sensitive'' (VBool True)))
                               False False (is_list_string first) False of
                          (second1, Inl e) \<Rightarrow> ((first, Some second1), Inl e)
                        | (second1, Inr v) \<Rightarrow>
                            (case expand self first None of
                               (first1, Inl e) \<Rightarrow> ((first1, Some second1), Inl e)
                             | (first1, Inr k) \<Rightarrow> ((first1, Some second1), dict1 k v)))))))"
| "call self (OpStr s) first so kw = ((first, so), Inl (AttributeError ''__func__''))"
| "build_like_regex self arg case_sensitive ends_with starts_with whole_string like_wildcards =
     (case expand self arg (Some ''string'') of
        (arg1, Inl e) \<Rightarrow> (arg1, Inl e)
      | (arg1, Inr base) \<Rightarrow>
          (arg1, like_regex base case_sensitive ends_with starts_with whole_string like_wildcards))"
  by pat_completeness auto

lemma coerce_second_esize:
  "coerce_second self second = Inr second1 \<Longrightarrow> esize second1 = 0 \<and> esize second = 0"
  by (auto simp: coerce_second_def split: expr.splits val.splits sum.splits)

lemma esize_preserved:
  "expand_dispatch_call_build_like_regex_dom (Inl (Inl (self, e, ft))) \<Longrightarrow>
     esize (fst (expand self e ft)) = esize e"
  "expand_dispatch_call_build_like_regex_dom (Inl (Inr (self, op, first, second, kw))) \<Longrightarrow>
     esize (fst (fst (dispatch self op first second kw))) = esize first
     \<and> esize (snd (fst (dispatch self op first second kw))) = esize second"
  "expand_dispatch_call_build_like_regex_dom (Inr (Inl (self, op, first, so, kw))) \<Longrightarrow>
     esize (fst (fst (call self op first so kw))) = esize first
     \<and> esize_opt (snd (fst (call self op first so kw))) = esize_opt so"
  "expand_dispatch_call_build_like_regex_dom (Inr (Inr (self, arg, cs, ew, sw, ws, lw))) \<Longrightarrow>
     esize (fst (build_like_regex self arg cs ew sw ws lw)) = esize arg"
proof (induct rule: expand_dispatch_call_build_like_regex.pinduct)
  case (1 self f field_type)
  then show ?case by (simp add: expand.psimps)
next
  case (2 self v field_type)
  then show ?case by (simp add: expand.psimps)
next
  case (3 self op first second kw field_type)
  show ?case
  proof (cases first)
    case (Fld f)
    show ?thesis
    proof (cases "ftype f = ''id'' \<or> contains_str (ftype f) ''reference''")
      case True
      show ?thesis
      proof (cases "coerce_second self second")
        case (Inl e)
        then show ?thesis using 3(1) Fld True by (simp add: expand.psimps)
      next
        case (Inr s1)
        have z: "esize s1 = 0 \<and> esize second = 0" using Inr by (rule coerce_second_esize)
        have "esize (fst (fst (dispatch self op (Fld (rename_id f)) s1 kw))) = 0
          \<and> esize (snd (fst (dispatch self op (Fld (rename_id f)) s1 kw))) = esize s1"
          using 3(3) [OF Fld True Inr] by simp
        then show ?thesis using 3(1) Fld True Inr z
          by (cases "dispatch self op (Fld (rename_id f)) s1 kw") (auto simp add: expand.psimps)
      qed
    next
      case False
      then show ?thesis using 3(1) 3(4) [OF Fld False] Fld
        by (auto simp add: expand.psimps split: prod.splits)
    qed
  next
    case (Lit v)
    then show ?thesis using 3(1) 3(2) [OF Lit]
      by (auto simp add: expand.psimps split: prod.splits)
  next
    case (Query o1 a b k1)
    then show ?thesis using 3(1) 3(5) [OF Query]
      by (auto simp add: expand.psimps split: prod.splits)
  next
    case (Expression o1 a b t1 k1)
    then show ?thesis using 3(1) 3(6) [OF Expression]
      by (auto simp add: expand.psimps split: prod.splits)
  qed
next
  case (4 self op first second t kw field_type)
  then show ?case by (auto simp: expand.psimps split: prod.splits)
next
  case (5 self op first second kw)
  then show ?case
    by (auto simp: dispatch.psimps split: prod.splits option.splits)
next
  case (6 self first so kw)
  then show ?case by (auto simp: call.psimps split: prod.splits sum.splits)
next
  case (7 self first so kw)
  show ?case
  proof (cases "so \<noteq> None \<or> kw \<noteq> []")
    case True
    then show ?thesis using 7(1) by (simp add: call.psimps)
  next
    case False
    obtain first1 r where E: "expand self first None = (first1, r)" by force
    have s1: "esize first1 = esize first" using 7(2) [OF False] E by simp
    show ?thesis
    proof (cases r)
      case (Inl e)
      then show ?thesis using 7(1) False E s1 by (simp add: call.psimps)
    next
      case (Inr op)
      show ?thesis
      proof (cases "first_key op")
        case (Inl e)
        then show ?thesis using 7(1) False E s1 Inr by (simp add: call.psimps)
      next
        case K: (Inr op_k)
        show ?thesis
        proof (cases "getitem op op_k")
          case (Inl e)
          then show ?thesis using 7(1) False E s1 Inr K by (simp add: call.psimps)
        next
          case B: (Inr op_body)
          show ?thesis
          proof (cases "\<exists>branches. op_body = VList branches")
            case False
            then have "(case op_body of VList branches \<Rightarrow> X branches | _ \<Rightarrow> Y) = Y" for X and Y :: "(expr \<times> expr option) \<times> (error + val)"
              by (cases op_body) simp_all
            then show ?thesis using 7(1) \<open>\<not> (so \<noteq> None \<or> kw \<noteq> [])\<close> E s1 Inr K B
              by (simp add: call.psimps)
          next
            case True
            then obtain branches where L: "op_body = VList branches" by blast
            show ?thesis
            proof (cases first1)
              case (Lit v)
              then show ?thesis using 7(1) False E s1 Inr K B L by (simp add: call.psimps)
            next
              case (Fld f)
              then show ?thesis using 7(1) False E s1 Inr K B L by (simp add: call.psimps)
            next
              case (Query op1 a b kw1)
              have ia: "esize (fst (fst (call self OpNOT a None []))) = esize a"
                using 7(3) [OF False E [symmetric] Inr K B L Query] by simp
              obtain a' x ra where A: "call self OpNOT a None [] = ((a', x), ra)"
                by (metis prod.exhaust)
              show ?thesis
              proof (cases ra)
                case (Inl e)
                then show ?thesis using 7(1) False E s1 Inr K B L Query ia A
                  by (simp add: call.psimps)
              next
                case RA: (Inr va)
                have ib: "esize (fst (fst (call self OpNOT b None []))) = esize b"
                  using 7(4) [OF False E [symmetric] Inr K B L Query A [symmetric] refl RA] by simp
                then show ?thesis using 7(1) False E s1 Inr K B L Query ia A RA
                  by (auto simp add: call.psimps split: prod.splits sum.splits)
              qed
            next
              case (Expression op1 a b t1 kw1)
              have ia: "esize (fst (fst (call self OpNOT a None []))) = esize a"
                using 7(5) [OF False E [symmetric] Inr K B L Expression] by simp
              obtain a' x ra where A: "call self OpNOT a None [] = ((a', x), ra)"
                by (metis prod.exhaust)
              show ?thesis
              proof (cases ra)
                case (Inl e)
                then show ?thesis using 7(1) False E s1 Inr K B L Expression ia A
                  by (simp add: call.psimps)
              next
                case RA: (Inr va)
                have ib: "esize (fst (fst (call self OpNOT b None []))) = esize b"
                  using 7(6) [OF False E [symmetric] Inr K B L Expression A [symmetric] refl RA] by simp
                then show ?thesis using 7(1) False E s1 Inr K B L Expression ia A RA
                  by (auto simp add: call.psimps split: prod.splits sum.splits)
              qed
            qed
          qed
        qed
      qed
    qed
  qed
next
  case (8 self bop first so kw)
  then show ?case by (auto simp: call.psimps split: prod.splits sum.splits option.splits; metis fst_conv)
next
  case (9 self first so kw)
  then show ?case by (auto simp: call.psimps split: prod.splits sum.splits option.splits expr.splits; metis fst_conv)
next
  case (10 self first so kw)
  then show ?case by (auto simp: call.psimps split: prod.splits sum.splits option.splits; metis fst_conv)
next
  case (11 self first so kw)
  then show ?case by (auto simp: call.psimps split: prod.splits sum.splits option.splits; metis fst_conv)
next
  case (12 self cop first so kw)
  then show ?case by (auto simp: call.psimps split: prod.splits sum.splits option.splits; metis fst_conv)
next
  case (13 self first so kw)
  then show ?case by (auto simp: call.psimps split: prod.splits sum.splits option.splits; metis fst_conv)
next
  case (14 self aop first so kw)
  then show ?case by (auto simp: call.psimps split: prod.splits sum.splits option.splits; metis fst_conv)
next
  case (15 self first so kw)
  then show ?case by (auto simp: call.psimps split: prod.splits sum.splits option.splits; metis fst_conv)
next
  case (16 self first so kw)
  then show ?case by (auto simp: call.psimps split: prod.splits sum.splits option.splits; metis fst_conv)
next
  case (17 self first so kw)
  then show ?case by (auto simp: call.psimps split: prod.splits sum.splits option.splits; metis fst_conv)
next
  case (18 self first so kw)
  then show ?case by (auto simp: call.psimps split: prod.splits sum.splits option.splits; metis fst_conv)
next
  case (19 self first so kw)
  then show ?case by (auto simp: call.psimps split: prod.splits sum.splits option.splits; metis fst_conv)
next
  case (20 self first so kw)
  then show ?case by (auto simp: call.psimps split: prod.splits sum.splits option.splits; metis fst_conv)
next
  case (21 self first so kw)
  then show ?case by (auto simp: call.psimps split: prod.splits sum.splits option.splits; metis fst_conv)
next
  case (22 self first so kw)
  then show ?case by (auto simp: call.psimps split: prod.splits sum.splits option.splits; metis fst_conv)
next
  case (23 self first so kw)
  then show ?case by (auto simp: call.psimps split: prod.splits sum.splits option.splits; metis fst_conv)
next
  case (24 self first so kw)
  then show ?case by (auto simp: call.psimps split: prod.splits sum.splits option.splits; metis fst_conv)
next
  case (25 self s first so kw)
  then show ?case by (auto simp: call.psimps split: prod.splits sum.splits option.splits; metis fst_conv)
next
  case (26 self arg cs ew sw ws lw)
  then show ?case by (auto simp: build_like_regex.psimps split: prod.splits sum.splits; metis fst_conv)
qed



lemma esize_expand_eq:
  "(e1, r) = expand self e ft \<Longrightarrow>
   expand_dispatch_call_build_like_regex_dom (Inl (Inl (self, e, ft))) \<Longrightarrow> esize e1 = esize e"
  using esize_preserved(1) [of self e ft] by (cases "expand self e ft") auto

termination expand
  apply (relation "measure (\<lambda>x. case x of
            Inl (Inl (self, e, ft)) \<Rightarrow> 8 * esize e
          | Inl (Inr (self, op, first, second, kw)) \<Rightarrow> 8 * (esize first + esize second) + 7
          | Inr (Inl (self, op, first, so, kw)) \<Rightarrow>
              8 * (esize first + esize_opt so) + (if op = OpILIKE then 6 else 5)
          | Inr (Inr (self, arg, cs, ew, sw, ws, lw)) \<Rightarrow> 8 * esize arg + 1)")
  apply (auto dest: coerce_second_esize split: option.splits)
  apply (drule (1) esize_expand_eq, simp)+
  done


lemmas call_plain = call.simps(1) call.simps(3-20)

declare expand.simps [simp del] dispatch.simps [simp del] call.simps [simp del]
  build_like_regex.simps [simp del]

section \<open>The document store\<close>

text \<open>
  The store is the driver's and the server's, not the adapter's. It is modelled as far as
  the executor's results depend on it: a collection is a list of documents, a document
  a list of named values, and every call the adapter issues is appended to a log.
  What the server computes inside is a parameter:
  \<^item> \<open>match_other\<close>: whether a filter matches a document, for every filter but the three
    shapes \<^verbatim>\<open>delete\<close> builds itself;
  \<^item> \<open>sort_docs\<close>: the order a sort specification puts documents in;
  \<^item> \<open>group_docs\<close>: the documents a \<^verbatim>\<open>$group\<close> stage makes of a non-empty input;
  \<^item> \<open>project_doc\<close>: the document a \<^verbatim>\<open>$project\<close> stage makes of one;
  \<^item> \<open>update_other\<close>: the effect of an update document other than \<^verbatim>\<open>$set\<close> and \<^verbatim>\<open>$pull\<close>.
  The server accepts every request; the one write error modelled is \<^verbatim>\<open>$pull\<close> on a field
  that is not an array.
\<close>

type_synonym doc = "(string \<times> val) list"

datatype store_call =
    Find string val "string list" int int "(string \<times> int) list"
  | Aggregate string "val list"
  | Count string val
  | UpdateMany string val val
  | ReplaceOne string val doc
  | DeleteMany string val

fun is_write :: "store_call \<Rightarrow> bool" where
  "is_write (UpdateMany t f u) = True"
| "is_write (ReplaceOne t f d) = True"
| "is_write (DeleteMany t f) = True"
| "is_write c = False"

record server =
  match_other :: "val \<Rightarrow> doc \<Rightarrow> bool"
  sort_docs :: "(string \<times> int) list \<Rightarrow> doc list \<Rightarrow> doc list"
  group_docs :: "val \<Rightarrow> doc list \<Rightarrow> doc list"
  project_doc :: "val \<Rightarrow> doc \<Rightarrow> doc"
  update_other :: "val \<Rightarrow> doc \<Rightarrow> doc"

record store =
  colls :: "string \<Rightarrow> doc list"
  calls :: "store_call list"

text \<open>A collection handle: the name and the write concern \<^verbatim>\<open>w\<close> it was opened with.\<close>

type_synonym collection = "string \<times> int"

text \<open>
  Equality of a stored field with an operand, as the server decides it: equal values,
  or an array that holds the operand; an absent field equals \<^verbatim>\<open>null\<close>.
\<close>

fun field_eq :: "val option \<Rightarrow> val \<Rightarrow> bool" where
  "field_eq None x = (x = VNone)"
| "field_eq (Some (VList xs)) x = (VList xs = x \<or> x \<in> set xs)"
| "field_eq (Some v) x = (v = x)"

definition matches :: "server \<Rightarrow> val \<Rightarrow> doc \<Rightarrow> bool" where
  "matches srv f d =
     (case f of
        VNone \<Rightarrow> True
      | VDict [] \<Rightarrow> True
      | VDict [(VStr k, cond)] \<Rightarrow>
          (if startswith k ''$'' then match_other srv f d
           else case cond of
                  VDict [(VStr op, VList xs)] \<Rightarrow>
                    (if op = ''$in'' then list_ex (field_eq (map_of d k)) xs
                     else match_other srv f d)
                | VDict c \<Rightarrow> match_other srv f d
                | _ \<Rightarrow> field_eq (map_of d k) cond)
      | _ \<Rightarrow> match_other srv f d)"

definition doc_set :: "string \<Rightarrow> val \<Rightarrow> doc \<Rightarrow> doc" where
  "doc_set k v d =
     (if k \<in> set (map fst d) then map (\<lambda>(k', v'). if k' = k then (k', v) else (k', v')) d
      else d @ [(k, v)])"

fun set_fields :: "(val \<times> val) list \<Rightarrow> doc \<Rightarrow> doc" where
  "set_fields [] d = d"
| "set_fields ((VStr k, v) # kvs) d = set_fields kvs (doc_set k v d)"
| "set_fields (kv # kvs) d = set_fields kvs d"

definition apply_update :: "server \<Rightarrow> val \<Rightarrow> doc \<Rightarrow> error + doc" where
  "apply_update srv u d =
     (case u of
        VDict [(VStr op, VDict kvs)] \<Rightarrow>
          (if op = ''$set'' then Inr (set_fields kvs d)
           else if op = ''$pull'' then
             (case kvs of
                [(VStr k, x)] \<Rightarrow>
                  (case map_of d k of
                     Some (VList xs) \<Rightarrow> Inr (doc_set k (VList (filter (\<lambda>y. y \<noteq> x) xs)) d)
                   | Some v \<Rightarrow> Inl (WriteError ''Cannot apply $pull to a non-array value'')
                   | None \<Rightarrow> Inr d)
              | _ \<Rightarrow> Inr (update_other srv u d))
           else Inr (update_other srv u d))
      | _ \<Rightarrow> Inr (update_other srv u d))"

text \<open>Documents are updated one after the other; a write error stops at that document.\<close>

fun update_docs :: "server \<Rightarrow> val \<Rightarrow> val \<Rightarrow> doc list \<Rightarrow> doc list \<times> error option \<times> nat" where
  "update_docs srv f u [] = ([], None, 0)"
| "update_docs srv f u (d # ds) =
     (if matches srv f d then
        (case apply_update srv u d of
           Inl e \<Rightarrow> (d # ds, Some e, 0)
         | Inr d' \<Rightarrow> (case update_docs srv f u ds of (ds', e, n) \<Rightarrow> (d' # ds', e, Suc n)))
      else (case update_docs srv f u ds of (ds', e, n) \<Rightarrow> (d # ds', e, n)))"

text \<open>A limit of 0 is no limit; a negative limit is its absolute value.\<close>

definition limit_docs :: "int \<Rightarrow> doc list \<Rightarrow> doc list" where
  "limit_docs limit ds = (if limit = 0 then ds else take (nat \<bar>limit\<bar>) ds)"

definition project_names :: "string list \<Rightarrow> doc \<Rightarrow> doc" where
  "project_names names d =
     (if names = [] then d else filter (\<lambda>(k, v). k \<in> set names \<or> k = ''_id'') d)"

text \<open>
  A pipeline stage. A \<^verbatim>\<open>$group\<close> stage emits one document for each group of its
  input, so none when the input is empty.
\<close>

definition run_stage :: "server \<Rightarrow> val \<Rightarrow> doc list \<Rightarrow> doc list" where
  "run_stage srv stage ds =
     (case stage of
        VDict [(VStr op, spec)] \<Rightarrow>
          (if op = ''$match'' then filter (matches srv spec) ds
           else if op = ''$group'' then (if ds = [] then [] else group_docs srv spec ds)
           else if op = ''$project'' then map (project_doc srv spec) ds
           else ds)
      | _ \<Rightarrow> ds)"

text \<open>The methods of a \<^verbatim>\<open>pymongo\<close> collection that the adapter calls.\<close>

text \<open>Sorting reorders its input, so it makes nothing of an empty one.\<close>

definition sorted_docs :: "server \<Rightarrow> (string \<times> int) list \<Rightarrow> doc list \<Rightarrow> doc list" where
  "sorted_docs srv order ds = (if ds = [] then [] else sort_docs srv order ds)"

definition coll_find ::
  "server \<Rightarrow> store \<Rightarrow> collection \<Rightarrow> val \<Rightarrow> string list \<Rightarrow> int \<Rightarrow> int \<Rightarrow> (string \<times> int) list
     \<Rightarrow> store \<times> doc list" where
  "coll_find srv st ctable f names skip limit order =
     (st\<lparr>calls := calls st @ [Find (fst ctable) f names skip limit order]\<rparr>,
      map (project_names names)
        (limit_docs limit (drop (nat skip)
           (sorted_docs srv order (filter (matches srv f) (colls st (fst ctable)))))))"

definition coll_count :: "server \<Rightarrow> store \<Rightarrow> collection \<Rightarrow> val \<Rightarrow> store \<times> int" where
  "coll_count srv st ctable f =
     (st\<lparr>calls := calls st @ [Count (fst ctable) f]\<rparr>,
      int (length (filter (matches srv f) (colls st (fst ctable)))))"

definition coll_aggregate :: "server \<Rightarrow> store \<Rightarrow> collection \<Rightarrow> val list \<Rightarrow> store \<times> doc list" where
  "coll_aggregate srv st ctable pipeline =
     (st\<lparr>calls := calls st @ [Aggregate (fst ctable) pipeline]\<rparr>,
      foldl (\<lambda>ds stage. run_stage srv stage ds) (colls st (fst ctable)) pipeline)"

text \<open>
  The write methods return the store, the exception of a write error if there was one,
  whether the write was acknowledged (\<^verbatim>\<open>w\<close> is not 0), and the count of the result.
\<close>

definition coll_update_many ::
  "server \<Rightarrow> store \<Rightarrow> collection \<Rightarrow> val \<Rightarrow> val \<Rightarrow> store \<times> (error + bool \<times> int)" where
  "coll_update_many srv st ctable f u =
     (case update_docs srv f u (colls st (fst ctable)) of
        (ds', e, n) \<Rightarrow>
          (st\<lparr>colls := (colls st)(fst ctable := ds'),
              calls := calls st @ [UpdateMany (fst ctable) f u]\<rparr>,
           (case e of
              Some err \<Rightarrow> Inl err
            | None \<Rightarrow> Inr (snd ctable \<noteq> 0, int n))))"

fun replace_first :: "server \<Rightarrow> val \<Rightarrow> doc \<Rightarrow> doc list \<Rightarrow> doc list \<times> nat" where
  "replace_first srv f new [] = ([], 0)"
| "replace_first srv f new (d # ds) =
     (if matches srv f d then (new # ds, 1)
      else (case replace_first srv f new ds of (ds', n) \<Rightarrow> (d # ds', n)))"

definition coll_replace_one ::
  "server \<Rightarrow> store \<Rightarrow> collection \<Rightarrow> val \<Rightarrow> doc \<Rightarrow> store \<times> (bool \<times> int)" where
  "coll_replace_one srv st ctable f new =
     (case replace_first srv f new (colls st (fst ctable)) of
        (ds', n) \<Rightarrow>
          (st\<lparr>colls := (colls st)(fst ctable := ds'),
              calls := calls st @ [ReplaceOne (fst ctable) f new]\<rparr>,
           (snd ctable \<noteq> 0, int n)))"

definition coll_delete_many ::
  "server \<Rightarrow> store \<Rightarrow> collection \<Rightarrow> val \<Rightarrow> store \<times> (bool \<times> int)" where
  "coll_delete_many srv st ctable f =
     (st\<lparr>colls := (colls st)(fst ctable := filter (\<lambda>d. \<not> matches srv f d) (colls st (fst ctable))),
         calls := calls st @ [DeleteMany (fst ctable) f]\<rparr>,
      (snd ctable \<noteq> 0, int (length (filter (matches srv f) (colls st (fst ctable))))))"

section \<open>The query executor\<close>

text \<open>A table of the schema, as far as the executor reads it.\<close>

record table =
  tfields :: "Field list"
  referenced_by :: "Field list"
  referenced_by_list :: "Field list"

type_synonym schema = "string \<Rightarrow> table option"

fun is_Query :: "expr \<Rightarrow> bool" where
  "is_Query (Query op a b kw) = True"
| "is_Query e = False"

text \<open>\<^verbatim>\<open>isinstance(x, Expression)\<close>: \<^verbatim>\<open>Field\<close> is a subclass of \<^verbatim>\<open>Expression\<close>, \<^verbatim>\<open>Query\<close> is not.\<close>

fun is_Expression :: "expr \<Rightarrow> bool" where
  "is_Expression (Expression op a b t kw) = True"
| "is_Expression (Fld f) = True"
| "is_Expression e = False"

text \<open>The truth value of an operand: objects of the algebra are true.\<close>

fun truthy_expr :: "expr \<Rightarrow> bool" where
  "truthy_expr (Lit v) = truthy v"
| "truthy_expr e = True"

fun tables_of :: "expr \<Rightarrow> string list" where
  "tables_of (Lit v) = []"
| "tables_of (Fld f) = [tablename f]"
| "tables_of (Query op a b kw) = tables_of a @ tables_of b"
| "tables_of (Expression op a b t kw) = tables_of a @ tables_of b"

text \<open>
  Modelled from the spec: \<^verbatim>\<open>get_table\<close> is a method of the base adapter, which is not part
  of this file. By section 3 every field of a query tree resolves to exactly one table
  name, which selects the collection; a tree with no table or with several is refused.
\<close>

definition get_table :: "expr \<Rightarrow> error + string" where
  "get_table query =
     (case remdups (tables_of query) of
        [t] \<Rightarrow> Inr t
      | [] \<Rightarrow> Inl (RuntimeError ''No table selected'')
      | _ \<Rightarrow> Inl (RuntimeError ''Too many tables selected''))"

text \<open>\<^verbatim>\<open>_get_safe\<close> and \<^verbatim>\<open>_get_collection\<close>; \<open>VNone\<close> is the absent argument.\<close>

definition get_safe :: "adapter \<Rightarrow> val \<Rightarrow> int" where
  "get_safe self v = (if v = VNone then safe self else if truthy v then 1 else 0)"

definition get_collection :: "adapter \<Rightarrow> string \<Rightarrow> val \<Rightarrow> collection" where
  "get_collection self tname sf =
     (tname, if sf \<noteq> VNone \<and> as_integer sf \<noteq> Some (safe self) then get_safe self sf else safe self)"

text \<open>
  \<^verbatim>\<open>_expand_query(query, tablename, safe)\<close>. The driver takes only a string as the name of
  a collection. \<^verbatim>\<open>use_common_filters\<close> and \<^verbatim>\<open>common_filter\<close> belong to other modules; no
  table of the model defines a common filter, so the query is compiled as it is.
\<close>

definition expand_query :: "adapter \<Rightarrow> expr \<Rightarrow> val \<Rightarrow> val \<Rightarrow> error + collection \<times> val" where
  "expand_query self query tname sf =
     (case (if \<not> truthy tname then get_table query
            else case as_basestring tname of
                   Some s \<Rightarrow> Inr s
                 | None \<Rightarrow> Inl (TypeError ''name must be an instance of basestring'')) of
        Inl e \<Rightarrow> Inl e
      | Inr t \<Rightarrow>
          (if truthy_expr query then
             (case snd (expand self query None) of
                Inl e \<Rightarrow> Inl e
              | Inr f \<Rightarrow> Inr (get_collection self t sf, f))
           else Inr (get_collection self t sf, VNone)))"

text \<open>\<^verbatim>\<open>count\<close> with \<^verbatim>\<open>return_tuple=True\<close>: the collection, the filter and the count.\<close>

definition count ::
  "adapter \<Rightarrow> server \<Rightarrow> store \<Rightarrow> expr \<Rightarrow> val \<Rightarrow> store \<times> (error + collection \<times> val \<times> int)" where
  "count self srv st query distinct_arg =
     (if truthy distinct_arg then (st, Inl (RuntimeError ''COUNT DISTINCT not supported''))
      else if \<not> is_Query query then (st, Inl (SyntaxError ''Not Supported''))
      else
        (case expand_query self query VNone VNone of
           Inl e \<Rightarrow> (st, Inl e)
         | Inr (ctable, f) \<Rightarrow>
             (case coll_count srv st ctable f of
                (st', n) \<Rightarrow> (st', Inr (ctable, f, n)))))"

text \<open>
  A dictionary built from pairs: a later pair with the same key replaces the value. The
  model keeps the keys in the order of their first insertion.
\<close>

definition dict_put :: "val \<Rightarrow> val \<Rightarrow> (val \<times> val) list \<Rightarrow> (val \<times> val) list" where
  "dict_put k v kvs =
     (if k \<in> set (map fst kvs) then map (\<lambda>(k', v'). if k' = k then (k', v) else (k', v')) kvs
      else kvs @ [(k, v)])"

definition dict_of :: "(val \<times> val) list \<Rightarrow> (val \<times> val) list" where
  "dict_of pairs = foldl (\<lambda>d (k, v). dict_put k v d) [] pairs"

text \<open>The assignments \<^verbatim>\<open>update\<close> writes: all but those to \<^verbatim>\<open>_id\<close> and \<^verbatim>\<open>id\<close>.\<close>

definition assigned :: "(Field \<times> expr) list \<Rightarrow> (Field \<times> expr) list" where
  "assigned flds = filter (\<lambda>(k, v). fname k \<notin> set [''_id'', ''id'']) flds"

text \<open>
  Line 528: the pairs of the \<^verbatim>\<open>$set\<close> document. On this path no assigned value is an
  \<^verbatim>\<open>Expression\<close>; a \<^verbatim>\<open>Query\<close> object as a value is not a value the coercion is defined on
  and is refused.
\<close>

definition set_pair :: "adapter \<Rightarrow> Field \<times> expr \<Rightarrow> error + val \<times> val" where
  "set_pair self kv =
     (case snd kv of
        Lit x \<Rightarrow>
          (case represent self x (Some (ftype (fst kv))) of
             Inl e \<Rightarrow> Inl e
           | Inr r \<Rightarrow> Inr (VStr (fname (fst kv)), r))
      | _ \<Rightarrow> Inl (TypeError ''cannot represent a query as a value''))"

text \<open>Lines 490 to 507: one entry of the projection of an update with expressions.\<close>

definition literal_wrapper :: "adapter \<Rightarrow> Field \<Rightarrow> val \<Rightarrow> error + val" where
  "literal_wrapper self field expanded =
     (if 26 \<le> 10 * fst (server_version self) + snd (server_version self)
      then Inr (VDict [(VStr ''$literal'', expanded)])
      else if ftype field \<in> set [''string'', ''text'', ''password'']
      then Inr (VDict [(VStr ''$concat'', VList [expanded])])
      else if ftype field \<in> set [''integer'', ''bigint'', ''float'', ''double'']
      then Inr (VDict [(VStr ''$add'', VList [expanded])])
      else if ftype field = ''boolean''
      then Inr (VDict [(VStr ''$and'', VList [expanded])])
      else if ftype field \<in> set [''date'', ''time'', ''datetime'']
      then Inr (VDict [(VStr ''$add'', VList [expanded])])
      else Inl (RuntimeError ''updating with expressions not supported for this field type in MongoDB version < 2.6''))"

definition projection_pair :: "adapter \<Rightarrow> Field \<times> expr \<Rightarrow> error + val \<times> val" where
  "projection_pair self kv =
     (case snd (expand (aggregate_expander self) (snd kv) (Some (ftype (fst kv)))) of
        Inl e \<Rightarrow> Inl e
      | Inr expanded \<Rightarrow>
          (if is_Expression (snd kv) then Inr (VStr (fname (fst kv)), expanded)
           else case literal_wrapper self (fst kv) expanded of
                  Inl e \<Rightarrow> Inl e
                | Inr w \<Rightarrow> Inr (VStr (fname (fst kv)), w)))"

text \<open>
  Lines 516 to 521: every document of the aggregation replaces the stored one. A
  document without \<^verbatim>\<open>_id\<close> raises inside the \<^verbatim>\<open>try\<close>.
\<close>

fun replace_all ::
  "server \<Rightarrow> store \<Rightarrow> collection \<Rightarrow> int \<Rightarrow> int \<Rightarrow> doc list \<Rightarrow> store \<times> (error + int)" where
  "replace_all srv st ctable sf amount [] = (st, Inr amount)"
| "replace_all srv st ctable sf amount (d # ds) =
     (case map_of d ''_id'' of
        None \<Rightarrow> (st, Inl (RuntimeError ''uncaught exception when updating rows''))
      | Some i \<Rightarrow>
          (case coll_replace_one srv st ctable (VDict [(VStr ''_id'', i)]) d of
             (st', (ack, matched)) \<Rightarrow>
               replace_all srv st' ctable sf
                 (if sf \<noteq> 0 \<and> ack then amount + matched else amount) ds))"

text \<open>Lines 486 to 521 and 526 to 534: the two ways \<^verbatim>\<open>update\<close> writes.\<close>

definition update_by_pipeline ::
  "adapter \<Rightarrow> server \<Rightarrow> schema \<Rightarrow> store \<Rightarrow> collection \<Rightarrow> val \<Rightarrow> int \<Rightarrow> int
     \<Rightarrow> Field \<Rightarrow> (Field \<times> expr) list \<Rightarrow> store \<times> (error + int)" where
  "update_by_pipeline self srv db st ctable f amount sf field flds =
     (case db (tablename field) of
        None \<Rightarrow> (st, Inl (AttributeError ''table''))
      | Some t \<Rightarrow>
          (case sequence (map (projection_pair self) (assigned flds)) of
             Inl e \<Rightarrow> (st, Inl e)
           | Inr entries \<Rightarrow>
               (case coll_aggregate srv st ctable
                       ((if f \<noteq> VNone then [VDict [(VStr ''$match'', f)]] else []) @
                        [VDict [(VStr ''$project'',
                           VDict (foldl (\<lambda>d (k, v). dict_put k v d)
                                    (dict_of (map (\<lambda>n. (VStr n, VInt 1))
                                       (filter (\<lambda>n. n \<notin> set [''_id'', ''id'']) (map fname (tfields t)))))
                                    entries))]]) of
                  (st', docs) \<Rightarrow> replace_all srv st' ctable sf amount docs)))"

definition update_by_set ::
  "adapter \<Rightarrow> server \<Rightarrow> store \<Rightarrow> collection \<Rightarrow> val \<Rightarrow> int \<Rightarrow> int
     \<Rightarrow> (Field \<times> expr) list \<Rightarrow> store \<times> (error + int)" where
  "update_by_set self srv st ctable f amount sf flds =
     (case sequence (map (set_pair self) (assigned flds)) of
        Inl e \<Rightarrow> (st, Inl e)
      | Inr pairs \<Rightarrow>
          (case coll_update_many srv st ctable f (VDict [(VStr ''$set'', VDict (dict_of pairs))]) of
             (st', Inl e) \<Rightarrow> (st', Inl (RuntimeError ''uncaught exception when updating rows''))
           | (st', Inr (ack, matched)) \<Rightarrow>
               (st', Inr (if sf \<noteq> 0 \<and> ack then matched else amount))))"

text \<open>
  \<^verbatim>\<open>update(tablename, query, fields, safe)\<close>: the store afterwards and the count returned
  or the exception raised.
\<close>

definition update ::
  "adapter \<Rightarrow> server \<Rightarrow> schema \<Rightarrow> store \<Rightarrow> string \<Rightarrow> expr \<Rightarrow> (Field \<times> expr) list \<Rightarrow> val
     \<Rightarrow> store \<times> (error + int)" where
  "update self srv db st tname query flds sf =
     (if \<not> is_Query query then (st, Inl (RuntimeError ''Not implemented''))
      else
        (case (if get_safe self sf \<noteq> 0
               then (case expand_query self query (VStr tname) (VInt (get_safe self sf)) of
                       Inl e \<Rightarrow> (st, Inl e)
                     | Inr (ctable, f) \<Rightarrow> (st, Inr (ctable, f, 0)))
               else count self srv st query (VBool False)) of
           (st1, Inl e) \<Rightarrow> (st1, Inl e)
         | (st1, Inr (ctable, f, amount)) \<Rightarrow>
             (if get_safe self sf = 0 \<and> amount = 0 then (st1, Inr amount)
              else
                (case find (\<lambda>(field, v). is_Expression v) flds of
                   Some (field, v) \<Rightarrow>
                     update_by_pipeline self srv db st1 ctable f amount (get_safe self sf) field flds
                 | None \<Rightarrow>
                     update_by_set self srv st1 ctable f amount (get_safe self sf) flds))))"

text \<open>
  \<^verbatim>\<open>select\<close>. The attributes read are \<^verbatim>\<open>orderby\<close> and \<^verbatim>\<open>limitby\<close> (a pair of integers); the
  others only log a warning. An item of the field list is \<^verbatim>\<open>SQLALL\<close> of a table, which
  stands for the table's fields, or a field or expression. The result is what is handed
  to the row processor: the rows and the column names.
\<close>

datatype select_item = SQLALL "Field list" | Item expr

record attributes =
  orderby :: "expr option"
  limitby :: "(int \<times> int) option"

fun split_on :: "char \<Rightarrow> string \<Rightarrow> string list" where
  "split_on c [] = [[]]"
| "split_on c (x # xs) =
     (if x = c then [] # split_on c xs
      else (case split_on c xs of
              w # ws \<Rightarrow> (x # w) # ws
            | [] \<Rightarrow> [[x]]))"

definition sort_key :: "string \<Rightarrow> string \<times> int" where
  "sort_key f = (if startswith f ''-'' then (drop 1 f, - 1) else (f, 1))"

text \<open>Lines 344 to 352: the sort list.\<close>

definition sort_list :: "adapter \<Rightarrow> expr option \<Rightarrow> error + (string \<times> int) list" where
  "sort_list self ob =
     (case ob of
        None \<Rightarrow> Inr []
      | Some e \<Rightarrow>
          (if \<not> truthy_expr e then Inr []
           else case snd (expand self e None) of
                  Inl err \<Rightarrow> Inl err
                | Inr v \<Rightarrow>
                    (case as_basestring v of
                       None \<Rightarrow> Inl (AttributeError ''split'')
                     | Some s \<Rightarrow> Inr (map sort_key (split_on CHR '','' s)))))"

definition select_fields :: "select_item list \<Rightarrow> expr list" where
  "select_fields items = concat (map (\<lambda>i. case i of SQLALL fs \<Rightarrow> map Fld fs | Item e \<Rightarrow> [e]) items)"

text \<open>Lines 359 to 368: the table of the select.\<close>

definition select_table :: "expr \<Rightarrow> expr list \<Rightarrow> error + string" where
  "select_table query flds =
     (if is_Query query then get_table query
      else case flds of
             [] \<Rightarrow> Inl (SyntaxError ''The table name could not be found in the query nor from the select statement.'')
           | Fld f # rest \<Rightarrow> get_table (Fld f)
           | Expression op a b t kw # rest \<Rightarrow> get_table (Expression op a b t kw)
           | other # rest \<Rightarrow> Inl (AttributeError ''tablename''))"

text \<open>\<^verbatim>\<open>not isinstance(field, Field) and isinstance(field, Expression)\<close>.\<close>

fun is_computed :: "expr \<Rightarrow> bool" where
  "is_computed (Expression op a b t kw) = True"
| "is_computed e = False"

fun is_Fld :: "expr \<Rightarrow> bool" where
  "is_Fld (Fld f) = True"
| "is_Fld e = False"

text \<open>
  Lines 381 to 386: in aggregation mode every item that is not a \<^verbatim>\<open>Field\<close> is compiled
  by the aggregate expander and named by the text of its fragment.
\<close>

definition group_pair :: "adapter \<Rightarrow> expr \<Rightarrow> error + val \<times> val" where
  "group_pair self field =
     (case snd (expand (aggregate_expander self) field None) of
        Inl e \<Rightarrow> Inl e
      | Inr p \<Rightarrow> Inr (VStr (py_str self p), p))"

text \<open>Lines 410 to 420: the key read from a result document for each item.\<close>

definition colname :: "adapter \<Rightarrow> expr \<Rightarrow> error + string" where
  "colname self field =
     (case field of
        Fld f \<Rightarrow> Inr (if fname f \<in> set [''id'', ''_id''] then ''_id'' else fname f)
      | _ \<Rightarrow>
          (case snd (expand (aggregate_expander self) field None) of
             Inl e \<Rightarrow> Inl e
           | Inr p \<Rightarrow> Inr (py_str self p)))"

definition newname :: "adapter \<Rightarrow> string \<Rightarrow> expr \<Rightarrow> error + string" where
  "newname self tname field =
     (case field of
        Fld f \<Rightarrow> Inr (tname @ ''.'' @ (if fname f \<in> set [''id'', ''_id''] then ''id'' else fname f))
      | _ \<Rightarrow> colname self field)"

text \<open>Lines 422 to 432: a missing key reads as \<^verbatim>\<open>None\<close>; no rows become the null rows.\<close>

definition make_rows :: "string list \<Rightarrow> doc list \<Rightarrow> val list list \<Rightarrow> val list list" where
  "make_rows colnames records null_rows =
     (if records = [] then null_rows
      else map (\<lambda>record. map (\<lambda>c. case map_of record c of None \<Rightarrow> VNone | Some v \<Rightarrow> v) colnames) records)"

text \<open>The names a direct find projects on: \<^verbatim>\<open>field.name\<close> of every item.\<close>

fun attr_name :: "expr \<Rightarrow> error + string" where
  "attr_name (Fld f) = Inr (fname f)"
| "attr_name e = Inl (AttributeError ''name'')"

definition select ::
  "adapter \<Rightarrow> server \<Rightarrow> schema \<Rightarrow> store \<Rightarrow> expr \<Rightarrow> select_item list \<Rightarrow> attributes
     \<Rightarrow> store \<times> (error + val list list \<times> string list)" where
  "select self srv db st query items attrs =
     (case sort_list self (orderby attrs) of
        Inl e \<Rightarrow> (st, Inl e)
      | Inr mongosort_list \<Rightarrow>
          (case select_table query (select_fields items) of
             Inl e \<Rightarrow> (st, Inl e)
           | Inr tname \<Rightarrow>
               (case snd (expand self query None) of
                  Inl e \<Rightarrow> (st, Inl e)
                | Inr mongoqry_dict \<Rightarrow>
                    (if list_ex is_computed (select_fields items) then
                       (case sequence (map (group_pair self) (filter (\<lambda>e. \<not> is_Fld e) (select_fields items))) of
                          Inl e \<Rightarrow> (st, Inl e)
                        | Inr pairs \<Rightarrow>
                            (case coll_aggregate srv st (tname, safe self)
                                    ((if mongoqry_dict \<noteq> VNone then [VDict [(VStr ''$match'', mongoqry_dict)]] else []) @
                                     [VDict [(VStr ''$group'', VDict (dict_put (VStr ''_id'') VNone (dict_of pairs)))]]) of
                               (st', records) \<Rightarrow>
                                 (case sequence (map (colname self) (select_fields items)) of
                                    Inl e \<Rightarrow> (st', Inl e)
                                  | Inr colnames \<Rightarrow>
                                      (case sequence (map (newname self tname) (select_fields items)) of
                                         Inl e \<Rightarrow> (st', Inl e)
                                       | Inr newnames \<Rightarrow>
                                           (st', Inr (make_rows colnames records [[VNone]], newnames))))))
                     else
                       (case (if select_fields items = []
                              then (case db tname of
                                      None \<Rightarrow> Inl (KeyError tname)
                                    | Some t \<Rightarrow> Inr (map Fld (tfields t)))
                              else Inr (select_fields items)) of
                          Inl e \<Rightarrow> (st, Inl e)
                        | Inr flds \<Rightarrow>
                            (case sequence (map attr_name flds) of
                               Inl e \<Rightarrow> (st, Inl e)
                             | Inr names \<Rightarrow>
                                 (case coll_find srv st (tname, safe self) mongoqry_dict (remdups names)
                                         (case limitby attrs of None \<Rightarrow> 0 | Some (lo, hi) \<Rightarrow> lo)
                                         (case limitby attrs of None \<Rightarrow> 0 | Some (lo, hi) \<Rightarrow> hi - 1)
                                         mongosort_list of
                                    (st', records) \<Rightarrow>
                                      (case sequence (map (colname self) flds) of
                                         Inl e \<Rightarrow> (st', Inl e)
                                       | Inr colnames \<Rightarrow>
                                           (case sequence (map (newname self tname) flds) of
                                              Inl e \<Rightarrow> (st', Inl e)
                                            | Inr newnames \<Rightarrow>
                                                (st', Inr (make_rows colnames records [], newnames)))))))))))"

section \<open>Concrete stores\<close>

text \<open>A server that matches nothing beyond the interpreted filters and keeps documents as they are.\<close>

definition plain_server :: server where
  "plain_server =
     \<lparr>match_other = (\<lambda>f d. False), sort_docs = (\<lambda>s ds. ds), group_docs = (\<lambda>spec ds. ds),
      project_doc = (\<lambda>spec d. d), update_other = (\<lambda>u d. d)\<rparr>"

definition empty_store :: store where
  "empty_store = \<lparr>colls = (\<lambda>t. []), calls = []\<rparr>"

section \<open>Concrete inputs\<close>

text \<open>An adapter whose base coercion passes every value through, for evaluation.\<close>

definition plain_adapter :: adapter where
  "plain_adapter =
     \<lparr>aggregate = False, random_choice = Some ''ffffffffffffffffffffffff'',
      base_represent = (\<lambda>v t. Inr v), repr_of = (\<lambda>v. ''<object>''), safe = 1,
      server_version = (3, 0)\<rparr>"


definition name_field :: Field where
  "name_field = \<lparr>fname = ''name'', ftype = ''string'', tablename = ''person'', ondelete = ''CASCADE''\<rparr>"

section \<open>Results\<close>

subsection \<open>The identifier round trip\<close>

lemma of_char_hexdigit_of:
  "d < 16 \<Longrightarrow> (of_char (hexdigit_of d) :: nat) = (if d < 10 then 48 + d else 87 + d)"
proof -
  assume "d < 16"
  then have "d \<in> {0, 1, 2, 3, 4, 5, 6, 7, 8, 9, 10, 11, 12, 13, 14, 15}" by (simp, arith)
  then show ?thesis by (auto simp: hexdigit_of_def)
qed

lemma hex_value_hexdigit_of: "d < 16 \<Longrightarrow> hex_value (hexdigit_of d) = Some d"
  by (auto simp: hex_value_def of_char_hexdigit_of Let_def)

lemma is_hex_hexdigit_of: "d < 16 \<Longrightarrow> is_hex (hexdigit_of d)"
  by (simp add: is_hex_def hex_value_hexdigit_of)

lemma to_lower_hexdigit_of: "d < 16 \<Longrightarrow> to_lower (hexdigit_of d) = hexdigit_of d"
  by (auto simp: to_lower_def of_char_hexdigit_of)

lemma hexdigit_of_not_L: "d < 16 \<Longrightarrow> hexdigit_of d \<noteq> CHR ''L''"
proof
  assume d: "d < 16" and "hexdigit_of d = CHR ''L''"
  then have "(of_char (hexdigit_of d) :: nat) = of_char CHR ''L''" by simp
  with d show False by (simp add: of_char_hexdigit_of split: if_splits)
qed

lemma digits_value_snoc: "digits_value b (s @ [c]) = digits_value b s * b + the (hex_value c)"
  by (simp add: digits_value_def)

lemma digits_value_hexdigits: "digits_value 16 (hexdigits n) = n"
proof (induction n rule: hexdigits.induct)
  case (1 n)
  show ?case
  proof (cases "n < 16")
    case True
    then show ?thesis
      by (simp add: hexdigits.simps [of n] digits_value_def hex_value_hexdigit_of)
  next
    case False
    with 1 show ?thesis
      by (simp add: hexdigits.simps [of n] digits_value_snoc hex_value_hexdigit_of)
  qed
qed

lemma hexdigits_all_hex: "list_all is_hex (hexdigits n)"
  by (induction n rule: hexdigits.induct)
     (subst hexdigits.simps, simp add: is_hex_hexdigit_of)

lemma hexdigits_lower: "map to_lower (hexdigits n) = hexdigits n"
  by (induction n rule: hexdigits.induct)
     (subst (1 2) hexdigits.simps, simp add: to_lower_hexdigit_of)

lemma hexdigits_nonempty: "hexdigits n \<noteq> []"
  by (subst hexdigits.simps) simp

lemma hexdigits_last: "last (hexdigits n) = hexdigit_of (n mod 16)"
  by (subst hexdigits.simps) simp

lemma length_hexdigits_le: "n < 16 ^ k \<Longrightarrow> 0 < k \<Longrightarrow> length (hexdigits n) \<le> k"
proof (induction n arbitrary: k rule: hexdigits.induct)
  case (1 n)
  show ?case
  proof (cases "n < 16")
    case True
    with 1(3) show ?thesis by (simp add: hexdigits.simps [of n])
  next
    case False
    obtain j where k: "k = Suc j" using 1(3) by (cases k) auto
    have "n div 16 < 16 ^ j" using 1(2) k by (simp add: less_mult_imp_div_less mult.commute)
    moreover have "0 < j" using False 1(2) k by (cases j) auto
    ultimately have "length (hexdigits (n div 16)) \<le> j" using 1(1) False by simp
    then show ?thesis using False k by (simp add: hexdigits.simps [of n])
  qed
qed

lemma length_hexdigits_gt: "16 ^ k \<le> n \<Longrightarrow> k < length (hexdigits n)"
proof (induction n arbitrary: k rule: hexdigits.induct)
  case (1 n)
  show ?case
  proof (cases "n < 16")
    case True
    have "k = 0"
    proof (rule ccontr)
      assume "k \<noteq> 0"
      then obtain j where "k = Suc j" by (cases k) auto
      then have "(16::nat) \<le> 16 ^ k" by simp
      with 1(2) True show False by simp
    qed
    then show ?thesis by (simp add: hexdigits.simps [of n])
  next
    case False
    show ?thesis
    proof (cases k)
      case 0
      then show ?thesis using hexdigits_nonempty [of n] by (cases "hexdigits n") auto
    next
      case (Suc j)
      then have "16 ^ j \<le> n div 16" using 1(2) by (simp add: less_eq_div_iff_mult_less_eq mult.commute)
      then have "j < length (hexdigits (n div 16))" using 1(1) False by simp
      then show ?thesis using False Suc by (simp add: hexdigits.simps [of n])
    qed
  qed
qed


lemma rstrip_hexdigits: "rstrip CHR ''L'' (hexdigits n) = hexdigits n"
proof -
  have "hd (rev (hexdigits n)) \<noteq> CHR ''L''"
    using hexdigits_last [of n] hexdigits_nonempty [of n] hexdigit_of_not_L [of "n mod 16"]
    by (simp add: hd_rev)
  then have "dropWhile (\<lambda>x. x = CHR ''L'') (rev (hexdigits n)) = rev (hexdigits n)"
    using hexdigits_nonempty [of n] by (cases "rev (hexdigits n)") auto
  then show ?thesis by (simp add: rstrip_def)
qed

lemma digits_value_zeros: "digits_value 16 (replicate k CHR ''0'' @ s) = digits_value 16 s"
proof -
  have "foldl (\<lambda>acc c. acc * 16 + the (hex_value c)) 0 (replicate k CHR ''0'') = 0"
    by (induction k) (simp_all add: hex_value_def Let_def)
  then show ?thesis by (simp add: digits_value_def)
qed

lemma hexdigits_no_sign: "hd (hexdigits n) \<noteq> CHR ''+'' \<and> hd (hexdigits n) \<noteq> CHR ''-''"
proof -
  have "is_hex (hd (hexdigits n))"
    using hexdigits_all_hex [of n] hexdigits_nonempty [of n]
    by (cases "hexdigits n") auto
  then show ?thesis by (auto simp: is_hex_def hex_value_def)
qed

lemma zfill_hexdigits:
  "zfill 24 (hexdigits n) =
     (if 24 \<le> length (hexdigits n) then hexdigits n
      else replicate (24 - length (hexdigits n)) CHR ''0'' @ hexdigits n)"
  using hexdigits_no_sign [of n] hexdigits_nonempty [of n]
  by (cases "hexdigits n") (auto simp: zfill_def)

lemma object_id_int:
  "0 \<le> n \<Longrightarrow> object_id self (VInt n) = ObjectId (zfill 24 (hexdigits (nat n)))"
  by (auto simp: object_id_def object_id_of_integer_def hex_def rstrip_hexdigits Let_def)

text \<open>
  C2, as amended. For an integer \<open>n\<close> with \<open>0 \<le> n < 16 ^ 24\<close>, \<^verbatim>\<open>object_id\<close> returns
  the identifier whose text is the hexadecimal form of \<open>n\<close> padded on the left with
  zeros to exactly 24 digits, and \<^verbatim>\<open>parse_id\<close> reads that identifier back as \<open>n\<close>.
  From \<open>16 ^ 24\<close> on the hexadecimal form has more than 24 digits; it is not
  truncated, and the conversion fails with \<^verbatim>\<open>InvalidId\<close>.
\<close>

theorem identifier_round_trip:
  "(0 \<le> n \<and> n < 16 ^ 24 \<longrightarrow>
      object_id self (VInt n) =
        Inr (VObjectId (replicate (24 - length (hexdigits (nat n))) CHR ''0'' @ hexdigits (nat n)))
      \<and> length (replicate (24 - length (hexdigits (nat n))) CHR ''0'' @ hexdigits (nat n)) = 24
      \<and> parse_id (VObjectId (replicate (24 - length (hexdigits (nat n))) CHR ''0'' @ hexdigits (nat n)))
          = Inr (VInt n))
   \<and> (16 ^ 24 \<le> n \<longrightarrow>
      object_id self (VInt n) = Inl (InvalidId (hexdigits (nat n))) \<and> 24 < length (hexdigits (nat n)))"
proof (intro conjI impI)
  assume n: "0 \<le> n \<and> n < 16 ^ 24"
  let ?h = "replicate (24 - length (hexdigits (nat n))) CHR ''0'' @ hexdigits (nat n)"
  have "nat n < 16 ^ 24" using n by (simp add: nat_less_iff)
  then have len: "length (hexdigits (nat n)) \<le> 24" by (rule length_hexdigits_le) simp
  then show l24: "length ?h = 24" by simp
  have z: "zfill 24 (hexdigits (nat n)) = ?h" using len by (simp add: zfill_hexdigits)
  have zero: "is_hex CHR ''0''" by (simp add: is_hex_def hex_value_def)
  have hexes: "list_all is_hex ?h"
    using hexdigits_all_hex [of "nat n"] zero by (auto simp: list_all_iff)
  have lower: "map to_lower ?h = ?h"
    by (simp add: hexdigits_lower to_lower_def)
  show "object_id self (VInt n) = Inr (VObjectId ?h)"
    using n l24 hexes lower by (simp add: object_id_int z ObjectId_def)
  have "?h \<noteq> []" using hexdigits_nonempty [of "nat n"] by simp
  then show "parse_id (VObjectId ?h) = Inr (VInt n)"
    using hexes n by (simp add: parse_id_def long16_def digits_value_zeros digits_value_hexdigits)
next
  assume n: "16 ^ 24 \<le> n"
  then have "16 ^ 24 \<le> nat n" by (simp add: le_nat_iff)
  then show l: "24 < length (hexdigits (nat n))" by (rule length_hexdigits_gt)
  have "0 \<le> n" using n by (rule order_trans [rotated]) simp
  then show "object_id self (VInt n) = Inl (InvalidId (hexdigits (nat n)))"
    using l by (simp add: object_id_int zfill_hexdigits ObjectId_def)
qed

lemma hexdigits_255: "hexdigits 255 = ''ff''"
  by (simp add: hexdigits.simps hexdigit_of_def)

lemma hexdigits_big: "hexdigits 79228162514264337593543950336 = ''1000000000000000000000000''"
  by (simp add: hexdigits.simps hexdigit_of_def)

theorem identifier_round_trip_witness:
  "(0::int) \<le> 255 \<and> (255::int) < 16 ^ 24
   \<and> object_id plain_adapter (VInt 255) = Inr (VObjectId ''0000000000000000000000ff'')
   \<and> parse_id (VObjectId ''0000000000000000000000ff'') = Inr (VInt 255)
   \<and> (16::int) ^ 24 \<le> 79228162514264337593543950336
   \<and> object_id plain_adapter (VInt 79228162514264337593543950336) = Inl (InvalidId ''1000000000000000000000000'')"
proof -
  have r: "replicate 22 CHR ''0'' = ''0000000000000000000000''"
    by (simp add: numeral_eq_Suc)
  show ?thesis
    using identifier_round_trip [of 255 plain_adapter]
      identifier_round_trip [of 79228162514264337593543950336 plain_adapter]
    by (simp add: hexdigits_255 hexdigits_big r)
qed

text \<open>
  The round trip as stated for every non-negative integer fails at \<open>16 ^ 24\<close>: the
  25 digits are neither padded nor cut, and the driver refuses them.
\<close>

theorem identifier_round_trip_counterexample:
  "object_id plain_adapter (VInt 79228162514264337593543950336)
     = Inl (InvalidId ''1000000000000000000000000'')"
proof -
  have "object_id plain_adapter (VInt 79228162514264337593543950336)
          = ObjectId (zfill 24 (hexdigits (nat 79228162514264337593543950336)))"
    by (rule object_id_int) simp
  then show ?thesis by (simp add: hexdigits_big zfill_def ObjectId_def)
qed



subsection \<open>The blob round trip\<close>

text \<open>
  C7. A byte array is encoded as a binary value tagged raw bytes and decoded back to the
  same byte array; a string that encodes as UTF-8 is left as it is; a string that does
  not is encoded as a tagged binary value and decoded back to the same string.
\<close>

theorem blob_round_trip:
  "MongoBlob (VByteArray b) = Inr (VBinary b MONGO_BLOB_BYTES)
   \<and> decode (VBinary b MONGO_BLOB_BYTES) = VByteArray b
   \<and> (encodes_utf8 s \<longrightarrow> MongoBlob (VStr s) = Inr (VStr s))
   \<and> (\<not> encodes_utf8 s \<longrightarrow>
        MongoBlob (VStr s) = Inr (VBinary s MONGO_BLOB_NON_UTF8_STR)
        \<and> decode (VBinary s MONGO_BLOB_NON_UTF8_STR) = VStr s)"
  by (simp add: MongoBlob_def decode_def Binary_def MONGO_BLOB_BYTES_def
      MONGO_BLOB_NON_UTF8_STR_def USER_DEFINED_SUBTYPE_def)

theorem blob_round_trip_witness:
  "encodes_utf8 ''abc'' \<and> MongoBlob (VStr ''abc'') = Inr (VStr ''abc'')
   \<and> \<not> encodes_utf8 [CHR 0x80, CHR ''a'']
   \<and> MongoBlob (VStr [CHR 0x80, CHR ''a'']) = Inr (VBinary [CHR 0x80, CHR ''a''] MONGO_BLOB_NON_UTF8_STR)
   \<and> decode (VBinary [CHR 0x80, CHR ''a''] MONGO_BLOB_NON_UTF8_STR) = VStr [CHR 0x80, CHR ''a'']"
  using blob_round_trip [of "''xy''" "''abc''"] blob_round_trip [of "''xy''" "[CHR 0x80, CHR ''a'']"]
  by (simp add: encodes_utf8_def)

subsection \<open>The compiler on fields and literals\<close>


lemma expand_Lit: "expand self (Lit v) ft = (Lit v, expand_literal self v ft)"
  by (simp add: expand.simps)

lemma build_like_regex_Lit:
  "fst (build_like_regex self (Lit v) cs ew sw ws lw) = Lit v"
  by (simp add: build_like_regex.simps expand_Lit split: sum.splits)











subsection \<open>Pattern operators\<close>

text \<open>
  C5. When the base coercion leaves the two literals as they are, \<^verbatim>\<open>LIKE(field, "a%b_c")\<close>
  compiles to the regular expression \<^verbatim>\<open>^a.*b.c$\<close> without options: the literal is
  escaped, then the escaped \<^verbatim>\<open>%\<close> becomes \<^verbatim>\<open>.*\<close> and the escaped \<^verbatim>\<open>_\<close> becomes \<^verbatim>\<open>.\<close>,
  and the pattern is anchored at both ends. \<^verbatim>\<open>STARTSWITH(field, "ab%")\<close> compiles to
  \<^verbatim>\<open>^ab\%\<close>: the \<^verbatim>\<open>%\<close> stays an escaped literal and only the start is anchored.
\<close>

theorem like_patterns:
  assumes "base_represent self (VStr ''a%b_c'') (Some ''string'') = Inr (VStr ''a%b_c'')"
    and "base_represent self (VStr ''ab%'') (Some ''string'') = Inr (VStr ''ab%'')"
  shows "snd (call self OpLIKE (Fld f) (Some (Lit (VStr ''a%b_c''))) []) =
           Inr (VDict [(VStr (if ftype f = ''id'' then ''_id''
                              else if aggregate self then ''$'' @ fname f else fname f),
                        VDict [(VStr ''$regex'', VStr ''^a.*b.c$'')])])
         \<and> snd (call self OpSTARTSWITH (Fld f) (Some (Lit (VStr ''ab%''))) []) =
           Inr (VDict [(VStr (if ftype f = ''id'' then ''_id''
                              else if aggregate self then ''$'' @ fname f else fname f),
                        VDict [(VStr ''$regex'', VStr [CHR ''^'', CHR ''a'', CHR ''b'', CHR 0x5C, CHR ''%''])])])"
proof -
  have e1: "re_escape ''a%b_c'' = [CHR ''a'', CHR 0x5C, CHR ''%'', CHR ''b'', CHR 0x5C, CHR ''_'', CHR ''c'']"
    by (simp add: re_escape_def is_alnum_def is_digit_def is_alpha_def)
  have e2: "re_escape ''ab%'' = [CHR ''a'', CHR ''b'', CHR 0x5C, CHR ''%'']"
    by (simp add: re_escape_def is_alnum_def is_digit_def is_alpha_def)
  have r1: "replace [CHR 0x5C, CHR ''%''] ''.*'' [CHR ''a'', CHR 0x5C, CHR ''%'', CHR ''b'', CHR 0x5C, CHR ''_'', CHR ''c'']
              = [CHR ''a'', CHR ''.'', CHR ''*'', CHR ''b'', CHR 0x5C, CHR ''_'', CHR ''c'']"
    by (simp add: replace.simps startswith_def)
  have r2: "replace [CHR 0x5C, CHR ''_''] ''.'' [CHR ''a'', CHR ''.'', CHR ''*'', CHR ''b'', CHR 0x5C, CHR ''_'', CHR ''c'']
              = ''a.*b.c''"
    by (simp add: replace.simps startswith_def)
  have r3: "replace ''_'' ''.'' ''a.*b.c'' = ''a.*b.c''"
    by (simp add: replace.simps startswith_def)
  have b1: "snd (build_like_regex self (Lit (VStr ''a%b_c'')) True False False True True)
              = Inr (VDict [(VStr ''$regex'', VStr ''^a.*b.c$'')])"
    using assms(1)
    by (simp add: build_like_regex.simps expand.simps expand_literal_def represent_def like_regex_def
        need_regex_def e1 r1 r2 r3 startswith_def)
  have b2: "snd (build_like_regex self (Lit (VStr ''ab%'')) True False True True False)
              = Inr (VDict [(VStr ''$regex'', VStr [CHR ''^'', CHR ''a'', CHR ''b'', CHR 0x5C, CHR ''%''])])"
    using assms(2)
    by (simp add: build_like_regex.simps expand.simps expand_literal_def represent_def like_regex_def
        need_regex_def e2 startswith_def)
  show ?thesis
    using b1 b2
    by (auto simp add: call_plain expand.simps kw_allowed_def kw_get_def dict1_def
        split: prod.splits sum.splits)
qed

theorem like_patterns_witness:
  "base_represent plain_adapter (VStr ''a%b_c'') (Some ''string'') = Inr (VStr ''a%b_c'')
   \<and> base_represent plain_adapter (VStr ''ab%'') (Some ''string'') = Inr (VStr ''ab%'')
   \<and> snd (call plain_adapter OpLIKE (Fld name_field) (Some (Lit (VStr ''a%b_c''))) []) =
         Inr (VDict [(VStr ''name'', VDict [(VStr ''$regex'', VStr ''^a.*b.c$'')])])
   \<and> snd (call plain_adapter OpSTARTSWITH (Fld name_field) (Some (Lit (VStr ''ab%''))) []) =
         Inr (VDict [(VStr ''name'', VDict [(VStr ''$regex'', VStr [CHR ''^'', CHR ''a'', CHR ''b'', CHR 0x5C, CHR ''%''])])])"
  using like_patterns [of plain_adapter name_field]
  by (simp add: plain_adapter_def name_field_def)

end
